theory Spec2Isabelle
  imports Main "HOL-Library.Word"
begin

section \<open>Failures\<close>

text \<open>
  A Go function of this repository either returns (possibly with a non-nil \<open>error\<close>
  value) or panics. Both are values of the model: \<open>Error e\<close> is an \<open>error\<close> handed
  back to the caller, \<open>Panic p\<close> is a run-time panic that unwinds the goroutine.
  \<open>EOF\<close> is \<open>io.EOF\<close>, the one error value the code compares against.
\<close>

datatype error = EOF | ErrMsg string

datatype panic = NilDeref | NilMapWrite

datatype failure = Panic panic | Error error

text \<open>
  A pointer that may be nil is an \<open>option\<close>; reading through it is \<open>deref\<close>.
\<close>

definition deref :: "'a option \<Rightarrow> failure + 'a" where
  "deref p = (case p of None \<Rightarrow> Inl (Panic NilDeref) | Some v \<Rightarrow> Inr v)"

section \<open>history/history.go: the ring of messages\<close>

text \<open>
  \<open>container/ring\<close>: a ring is seen from its current element. The model is the list of
  the slots in \<open>Next\<close> order, the current element first; the nil ring (what
  \<open>ring.New n\<close> returns for \<open>n \<le> 0\<close>) is the empty list. A slot holds \<open>None\<close>
  (the nil interface value) or \<open>Some m\<close>.
\<close>

type_synonym 'm ring = "'m option list"

definition ring_New :: "int \<Rightarrow> 'm ring" where
  "ring_New n = (if n \<le> 0 then [] else replicate (nat n) None)"

definition ring_Len :: "'m ring \<Rightarrow> int" where
  "ring_Len r = int (length r)"

definition ring_Next :: "'m ring \<Rightarrow> 'm ring" where
  "ring_Next r = rotate1 r"

text \<open>
  \<open>r.Do(f)\<close> calls \<open>f\<close> on the value of every element, starting at \<open>r\<close> and following
  \<open>Next\<close>; on the nil ring it does nothing. The closure may write to the very ring it
  walks, so the slots travel with the closure's own variables: the \<open>i\<close>-th call reads
  slot \<open>i\<close> as it is at that moment.
\<close>

definition ring_Do ::
  "('m option \<Rightarrow> 'm ring \<times> 'x \<Rightarrow> 'm ring \<times> 'x) \<Rightarrow> 'm ring \<times> 'x \<Rightarrow> 'm ring \<times> 'x" where
  "ring_Do f s = fold (\<lambda>i s. f (fst s ! i) s) [0..<length (fst s)] s"

record 'm History =
  data :: "'m ring"
  maxContext :: int

definition history_New :: "int \<Rightarrow> 'm History" where
  "history_New context =
     \<lparr> data = ring_New context,
       maxContext = sint (word_of_int (context * 2) :: 64 word) \<rparr>"

text \<open>\<open>u.data.Value = msg\<close> on the nil ring is a nil-pointer dereference.\<close>

definition History_Store :: "'m History \<Rightarrow> 'm \<Rightarrow> failure + (bool \<times> 'm History)" where
  "History_Store u msg =
     (if data u = [] then Inl (Panic NilDeref)
      else Inr (True, u\<lparr>data := ring_Next (Some msg # tl (data u))\<rparr>))"

fun History_StoreMany :: "'m History \<Rightarrow> 'm list \<Rightarrow> failure + 'm History" where
  "History_StoreMany u [] = Inr u"
| "History_StoreMany u (msg # msgs) =
     (if data u = [] then Inl (Panic NilDeref)
      else History_StoreMany (u\<lparr>data := ring_Next (Some msg # tl (data u))\<rparr>) msgs)"

text \<open>
  \<open>Clear\<close>: the closure ignores its argument and assigns \<open>u.data.Value = nil\<close>, that is
  the value of the current element, once for every element of the ring.
\<close>

definition History_Clear :: "'m History \<Rightarrow> 'm History" where
  "History_Clear u = u\<lparr>data := fst (ring_Do (\<lambda>a (r, x). (None # tl r, x)) (data u, ()))\<rparr>"

definition History_Len :: "'m History \<Rightarrow> int" where
  "History_Len u = ring_Len (data u)"

definition History_Slice :: "'m History \<Rightarrow> 'm list" where
  "History_Slice u =
     snd (ring_Do (\<lambda>a (r, x). (r, case a of None \<Rightarrow> x | Some m \<Rightarrow> x @ [m])) (data u, []))"

text \<open>A run of single \<open>Store\<close> calls, one per message.\<close>

fun History_Store_each :: "'m History \<Rightarrow> 'm list \<Rightarrow> failure + 'm History" where
  "History_Store_each u [] = Inr u"
| "History_Store_each u (msg # msgs) =
     (case History_Store u msg of Inl e \<Rightarrow> Inl e | Inr (_, u') \<Rightarrow> History_Store_each u' msgs)"

section \<open>chat/chat.go: one session\<close>

text \<open>
  The fields of \<open>model.ChatCompletionMessage\<close> that the code reads or writes. \<open>Content\<close>
  is a pointer to a content value holding a \<open>StringValue\<close>; the code only ever builds a
  content from a string, so \<open>Content = Some s\<close> is a content with that string.
\<close>

record Message =
  Role :: string
  Content :: "string option"
  ToolCallID :: string

record FunctionCall =
  Name :: string
  Arguments :: string

record ToolCall =
  ID :: string
  Function :: FunctionCall
  Type :: string

record Tool =
  ToolType :: string
  ToolName :: string
  ToolDescription :: string
  ToolParameters :: string

text \<open>
  A fragment of a streamed response is the list of its choices, each one a delta. A
  stream is the list of what successive \<open>Recv\<close> calls return; \<open>Recv\<close> on a stream
  that has nothing left returns \<open>io.EOF\<close> (and sets \<open>IsFinished\<close>).
\<close>

record Delta =
  DeltaRole :: string
  DeltaContent :: string
  DeltaToolCalls :: "ToolCall list"

type_synonym stream = "(error + Delta list) list"

text \<open>
  The message of a choice of a complete response: its content pointer may be nil
  (\<open>None\<close>), and a content may hold no string (\<open>Some None\<close>).
\<close>

record RespMessage =
  RespRole :: string
  RespContent :: "string option option"
  RespToolCalls :: "ToolCall list"

record CreateChatCompletionRequest =
  Model :: string
  Messages :: "Message list"
  Stream :: bool
  Tools :: "Tool list"

text \<open>The model service, an external collaborator: what the two calls of the client return.\<close>

record backend =
  CreateChatCompletionStream :: "CreateChatCompletionRequest \<Rightarrow> error + stream"
  CreateChatCompletion :: "CreateChatCompletionRequest \<Rightarrow> error + RespMessage list"

text \<open>
  The write function is the caller's; it may keep state of its own (\<open>'s\<close>), and that
  state is returned whatever happens: what was written stays written.
\<close>

type_synonym 's writeFunc = "'s \<Rightarrow> string \<Rightarrow> error option \<times> 's"

record 's chat_Opt =
  toolcalled :: "Message list"
  roleSystem :: "Message list"
  tools :: "Tool list"
  writeFunc :: "'s writeFunc"
  model :: string
  stream :: bool

record ChatOpt =
  maxhistory :: int
  apikey :: string

definition WithMaxHistory :: "int \<Rightarrow> ChatOpt \<Rightarrow> ChatOpt" where
  "WithMaxHistory n opt = opt\<lparr>maxhistory := n\<rparr>"

definition WithAPIKey :: "string \<Rightarrow> ChatOpt \<Rightarrow> ChatOpt" where
  "WithAPIKey k opt = opt\<lparr>apikey := k\<rparr>"

definition WithRoleSystem :: "Message list \<Rightarrow> 's chat_Opt \<Rightarrow> 's chat_Opt" where
  "WithRoleSystem msg opt = opt\<lparr>roleSystem := msg\<rparr>"

definition WithToolCalled :: "Message list \<Rightarrow> 's chat_Opt \<Rightarrow> 's chat_Opt" where
  "WithToolCalled tc opt = opt\<lparr>toolcalled := tc\<rparr>"

definition WithWriteFunc :: "'s writeFunc \<Rightarrow> 's chat_Opt \<Rightarrow> 's chat_Opt" where
  "WithWriteFunc f opt = opt\<lparr>writeFunc := f\<rparr>"

definition WithModel :: "string \<Rightarrow> 's chat_Opt \<Rightarrow> 's chat_Opt" where
  "WithModel m opt = opt\<lparr>model := m\<rparr>"

definition WithStream :: "bool \<Rightarrow> 's chat_Opt \<Rightarrow> 's chat_Opt" where
  "WithStream b opt = opt\<lparr>stream := b\<rparr>"

definition WithTools :: "Tool list \<Rightarrow> 's chat_Opt \<Rightarrow> 's chat_Opt" where
  "WithTools ts opt = opt\<lparr>tools := ts\<rparr>"

text \<open>
  The session. The client handle is the \<open>backend\<close> passed to the calls, the mutex has
  no counterpart in a sequential model, and \<open>lastMessage\<close> is a reading of the clock.
\<close>

record Chat =
  history :: "Message History"
  lastMessage :: nat
  chat_apikey :: string
  chat_model :: string
  chat_id :: string

definition chat_New :: "string \<Rightarrow> string \<Rightarrow> (ChatOpt \<Rightarrow> ChatOpt) list \<Rightarrow> Chat" where
  "chat_New i modelName opts =
     (let co = fold (\<lambda>opt co. opt co) opts \<lparr> maxhistory = 500, apikey = ''your_api_key'' \<rparr>
      in \<lparr> history = history_New (maxhistory co),
           lastMessage = 0,
           chat_apikey = apikey co,
           chat_model = modelName,
           chat_id = i \<rparr>)"

definition Chat_ID :: "Chat \<Rightarrow> string" where
  "Chat_ID c = chat_id c"

definition Chat_LastMessage :: "Chat \<Rightarrow> nat" where
  "Chat_LastMessage c = lastMessage c"

definition Chat_History :: "Chat \<Rightarrow> Message list" where
  "Chat_History c = History_Slice (history c)"

definition Chat_SetHistory :: "Chat \<Rightarrow> Message list \<Rightarrow> failure + Chat" where
  "Chat_SetHistory c h =
     (case History_StoreMany (history c) h of
        Inl f \<Rightarrow> Inl f
      | Inr u \<Rightarrow> Inr (c\<lparr>history := u\<rparr>))"

text \<open>
  The tool calls under assembly: \<open>toolCallMap\<close> as an association list with distinct
  keys (a Go map has no order of its own; the list keeps the order of first insertion),
  and \<open>lastCallID\<close>. The entry looked up for an empty id may be missing:
  \<open>toolCallMap[lastCallID]\<close> is then the nil pointer and the assignment to its
  \<open>Function.Arguments\<close> dereferences it.
\<close>

type_synonym toolCallMap = "(string \<times> ToolCall) list"

fun map_put :: "('k \<times> 'v) list \<Rightarrow> 'k \<Rightarrow> 'v \<Rightarrow> ('k \<times> 'v) list" where
  "map_put [] k v = [(k, v)]"
| "map_put ((k', v') # kvs) k v =
     (if k' = k then (k, v) # kvs else (k', v') # map_put kvs k v)"

fun stream_tool_calls ::
  "toolCallMap \<times> string \<Rightarrow> ToolCall list \<Rightarrow> failure + toolCallMap \<times> string" where
  "stream_tool_calls (toolCallMap, lastCallID) [] = Inr (toolCallMap, lastCallID)"
| "stream_tool_calls (toolCallMap, lastCallID) (tc # tcs) =
     (if ID tc \<noteq> '''' then
        stream_tool_calls
          (if map_of toolCallMap (ID tc) = None
           then map_put toolCallMap (ID tc)
                  \<lparr> ID = ID tc,
                    Function = \<lparr> Name = Name (Function tc),
                                 Arguments = Arguments (Function tc) \<rparr>,
                    Type = Type tc \<rparr>
           else toolCallMap,
           ID tc) tcs
      else
        (case map_of toolCallMap lastCallID of
           None \<Rightarrow> Inl (Panic NilDeref)
         | Some e \<Rightarrow>
             stream_tool_calls
               (map_put toolCallMap lastCallID
                  (e\<lparr>Function := (Function e)
                       \<lparr>Arguments := Arguments (Function e) @ Arguments (Function tc)\<rparr>\<rparr>),
                lastCallID) tcs))"

text \<open>
  The receive loop of \<open>doStream\<close>, with its three local variables and the state of the
  write function. It ends at \<open>io.EOF\<close>, at any other error of \<open>Recv\<close>, at an error
  of the write function, or at a panic.
\<close>

fun stream_loop ::
  "'s writeFunc \<Rightarrow> stream \<Rightarrow> toolCallMap \<times> string \<times> string \<Rightarrow> 's
     \<Rightarrow> (failure + toolCallMap \<times> string \<times> string) \<times> 's" where
  "stream_loop w [] (toolCallMap, lastCallID, message) s =
     (Inr (toolCallMap, lastCallID, message), s)"
| "stream_loop w (Inl err # rest) (toolCallMap, lastCallID, message) s =
     (if err = EOF then (Inr (toolCallMap, lastCallID, message), s)
      else (Inl (Error err), s))"
| "stream_loop w (Inr [] # rest) (toolCallMap, lastCallID, message) s =
     stream_loop w rest (toolCallMap, lastCallID, message) s"
| "stream_loop w (Inr (d # ds) # rest) (toolCallMap, lastCallID, message) s =
     (case (if DeltaRole d = ''assistant'' \<and> DeltaContent d \<noteq> ''''
            then (case w s (DeltaContent d) of
                    (Some err, s') \<Rightarrow> (Inl (Error err), s')
                  | (None, s') \<Rightarrow> (Inr (message @ DeltaContent d), s'))
            else (Inr message, s)) of
        (Inl f, s') \<Rightarrow> (Inl f, s')
      | (Inr message', s') \<Rightarrow>
          (case stream_tool_calls (toolCallMap, lastCallID) (DeltaToolCalls d) of
             Inl f \<Rightarrow> (Inl f, s')
           | Inr (toolCallMap', lastCallID') \<Rightarrow>
               stream_loop w rest (toolCallMap', lastCallID', message') s'))"

definition doStream ::
  "backend \<Rightarrow> Chat \<Rightarrow> CreateChatCompletionRequest \<Rightarrow> 's writeFunc \<Rightarrow> 's
     \<Rightarrow> (failure + toolCallMap) \<times> Chat \<times> 's" where
  "doStream b c req w s =
     (case CreateChatCompletionStream b req of
        Inl err \<Rightarrow> (Inl (Error err), c, s)
      | Inr items \<Rightarrow>
          (case stream_loop w items ([], '''', '''') s of
             (Inl f, s') \<Rightarrow> (Inl f, c, s')
           | (Inr (toolCallMap, lastCallID, message), s') \<Rightarrow>
               (if length message > 0 then
                  (case History_Store (history c)
                          \<lparr> Role = ''assistant'', Content = Some message, ToolCallID = '''' \<rparr> of
                     Inl f \<Rightarrow> (Inl f, c, s')
                   | Inr (_, u) \<Rightarrow> (Inr toolCallMap, c\<lparr>history := u\<rparr>, s'))
                else (Inr toolCallMap, c, s'))))"

fun do_tool_calls :: "toolCallMap \<Rightarrow> ToolCall list \<Rightarrow> toolCallMap" where
  "do_tool_calls toolCallMap [] = toolCallMap"
| "do_tool_calls toolCallMap (tc # tcs) =
     do_tool_calls
       (if ID tc \<noteq> '''' \<and> map_of toolCallMap (ID tc) = None
        then map_put toolCallMap (ID tc)
               \<lparr> ID = ID tc,
                 Function = \<lparr> Name = Name (Function tc),
                              Arguments = Arguments (Function tc) \<rparr>,
                 Type = Type tc \<rparr>
        else toolCallMap) tcs"

definition do ::
  "backend \<Rightarrow> Chat \<Rightarrow> CreateChatCompletionRequest \<Rightarrow> 's writeFunc \<Rightarrow> 's
     \<Rightarrow> (failure + toolCallMap) \<times> Chat \<times> 's" where
  "do b c req w s =
     (case CreateChatCompletion b req of
        Inl err \<Rightarrow> (Inl (Error err), c, s)
      | Inr [] \<Rightarrow> (Inr [], c, s)
      | Inr (m # ms) \<Rightarrow>
          (if RespRole m = ''assistant'' then
             (case RespContent m of
                None \<Rightarrow> (Inl (Panic NilDeref), c, s)
              | Some None \<Rightarrow> (Inr (do_tool_calls [] (RespToolCalls m)), c, s)
              | Some (Some text) \<Rightarrow>
                  (case w s text of
                     (Some err, s') \<Rightarrow> (Inl (Error err), c, s')
                   | (None, s') \<Rightarrow>
                       (case History_Store (history c)
                               \<lparr> Role = RespRole m, Content = Some text, ToolCallID = '''' \<rparr> of
                          Inl f \<Rightarrow> (Inl f, c, s')
                        | Inr (_, u) \<Rightarrow>
                            (Inr (do_tool_calls [] (RespToolCalls m)), c\<lparr>history := u\<rparr>, s'))))
           else (Inr (do_tool_calls [] (RespToolCalls m)), c, s)))"

text \<open>
  \<open>Chat.Chat\<close>. \<open>Chat_options\<close> is its \<open>co\<close>: the defaults with the options of the
  call applied in order; \<open>Chat_request\<close> is its \<open>req\<close>: the system messages, if
  any, before the snapshot of the history, and the tools only when no tool results are
  handed in. The deferred function sets \<open>lastMessage\<close> on every way out, a
  panic included; \<open>now\<close> is the clock at that moment.
\<close>

definition Chat_options :: "Chat \<Rightarrow> ('s chat_Opt \<Rightarrow> 's chat_Opt) list \<Rightarrow> 's chat_Opt" where
  "Chat_options c opts =
     fold (\<lambda>opt co. opt co) opts
       \<lparr> toolcalled = [], roleSystem = [], tools = [],
         writeFunc = (\<lambda>s d. (None, s)), model = chat_model c, stream = False \<rparr>"

definition Chat_request :: "'s chat_Opt \<Rightarrow> Message History \<Rightarrow> CreateChatCompletionRequest" where
  "Chat_request co u =
     \<lparr> Model = model co,
       Messages = (if length (roleSystem co) > 0 then roleSystem co else []) @ History_Slice u,
       Stream = stream co,
       Tools = (if length (toolcalled co) > 0 then []
                else if length (tools co) > 0 then tools co else []) \<rparr>"

definition Chat_Chat ::
  "backend \<Rightarrow> nat \<Rightarrow> Chat \<Rightarrow> string \<Rightarrow> ('s chat_Opt \<Rightarrow> 's chat_Opt) list \<Rightarrow> 's
     \<Rightarrow> (failure + toolCallMap) \<times> Chat \<times> 's" where
  "Chat_Chat b now c message opts s =
     (let co = Chat_options c opts
      in case (if length message > 0
               then History_Store (history c)
                      \<lparr> Role = ''user'', Content = Some message, ToolCallID = '''' \<rparr>
               else Inr (True, history c)) of
           Inl f \<Rightarrow> (Inl f, c\<lparr>lastMessage := now\<rparr>, s)
         | Inr (_, u1) \<Rightarrow>
             (case (if length (toolcalled co) > 0
                    then History_StoreMany u1 (toolcalled co)
                    else Inr u1) of
                Inl f \<Rightarrow> (Inl f, c\<lparr>history := u1, lastMessage := now\<rparr>, s)
              | Inr u2 \<Rightarrow>
                  (let req = Chat_request co u2;
                       c2 = c\<lparr>history := u2\<rparr>;
                       (r, c3, s') = (if stream co then doStream b c2 req (writeFunc co) s
                                      else do b c2 req (writeFunc co) s)
                   in (r, c3\<lparr>lastMessage := now\<rparr>, s'))))"

section \<open>storage: the three implementations of the Storage interface\<close>

text \<open>
  The JSON library is an external collaborator. A codec gives what it returns on the
  three calls the storages make: marshalling a list of messages, unmarshalling into a
  single message (what \<open>FileStorage.Load\<close> asks for), and unmarshalling into a list
  of messages (what \<open>RedisStorage.Load\<close> asks for).
\<close>

record json_codec =
  Marshal :: "Message list \<Rightarrow> error + string"
  UnmarshalMessage :: "string \<Rightarrow> error + Message"
  UnmarshalMessages :: "string \<Rightarrow> error + Message list"

text \<open>\<open>MemoryStorage\<close>: the Go map \<open>data\<close>.\<close>

type_synonym MemoryStorage = "string \<rightharpoonup> Message list"

definition NewMemoryStorage :: MemoryStorage where
  "NewMemoryStorage = Map.empty"

definition MemoryStorage_Clear :: "MemoryStorage \<Rightarrow> error option \<times> MemoryStorage" where
  "MemoryStorage_Clear s = (None, Map.empty)"

definition MemoryStorage_Store ::
  "MemoryStorage \<Rightarrow> string \<Rightarrow> Message list \<Rightarrow> error option \<times> MemoryStorage" where
  "MemoryStorage_Store s chatid msg =
     (let s1 = (if s chatid = None then s(chatid \<mapsto> []) else s)
      in (None, s1(chatid \<mapsto> msg)))"

definition MemoryStorage_Load :: "MemoryStorage \<Rightarrow> string \<Rightarrow> error + Message list" where
  "MemoryStorage_Load s chatid =
     (case s chatid of None \<Rightarrow> Inr [] | Some msgs \<Rightarrow> Inr msgs)"

text \<open>
  \<open>FileStorage\<close>: the key-value database, an external collaborator, as the list of its
  key-value pairs, one pair per key, in the byte order of the keys (the order in which
  the database walks them). \<open>Write\<close> replaces the value of a key or puts the pair in
  its place, and always succeeds here. \<open>ForEach\<close> hands every pair to the callback
  and stops at the first error the callback returns; \<open>Load\<close> drops the result of
  \<open>ForEach\<close> and returns whatever its slice \<open>data\<close> (here \<open>data'\<close>) holds by
  then, with a nil error. \<open>chatid\<close> is not used by \<open>Load\<close>.
\<close>

type_synonym FileStorage = "(string \<times> string) list"

fun bytes_less :: "string \<Rightarrow> string \<Rightarrow> bool" where
  "bytes_less [] [] = False"
| "bytes_less [] (y # ys) = True"
| "bytes_less (x # xs) [] = False"
| "bytes_less (x # xs) (y # ys) =
     ((of_char x :: nat) < of_char y \<or> (x = y \<and> bytes_less xs ys))"

fun bolt_put :: "FileStorage \<Rightarrow> string \<Rightarrow> string \<Rightarrow> FileStorage" where
  "bolt_put [] k v = [(k, v)]"
| "bolt_put ((k', v') # kvs) k v =
     (if k' = k then (k, v) # kvs
      else if bytes_less k k' then (k, v) # (k', v') # kvs
      else (k', v') # bolt_put kvs k v)"

definition BoltDB_Write :: "FileStorage \<Rightarrow> string \<Rightarrow> string \<Rightarrow> error option \<times> FileStorage" where
  "BoltDB_Write db k v = (None, bolt_put db k v)"

fun FileStorage_Load_ForEach :: "json_codec \<Rightarrow> FileStorage \<Rightarrow> Message list \<Rightarrow> Message list" where
  "FileStorage_Load_ForEach j [] data' = data'"
| "FileStorage_Load_ForEach j ((k, v) # kvs) data' =
     (case UnmarshalMessage j v of
        Inl err \<Rightarrow> data'
      | Inr x \<Rightarrow> FileStorage_Load_ForEach j kvs (data' @ [x]))"

definition FileStorage_Load :: "json_codec \<Rightarrow> FileStorage \<Rightarrow> string \<Rightarrow> error + Message list" where
  "FileStorage_Load j db chatid = Inr (FileStorage_Load_ForEach j db [])"

definition FileStorage_Store ::
  "json_codec \<Rightarrow> FileStorage \<Rightarrow> string \<Rightarrow> Message list \<Rightarrow> error option \<times> FileStorage" where
  "FileStorage_Store j db chatid h =
     (case Marshal j h of
        Inl err \<Rightarrow> (Some err, db)
      | Inr xs \<Rightarrow> BoltDB_Write db chatid xs)"

text \<open>
  \<open>RedisStorage\<close>: the hash stored under \<open>historyKey\<close>, field to value, on a server
  that answers in time. \<open>HGet\<close> of a missing field is the error \<open>redis.Nil\<close>.
\<close>

type_synonym RedisStorage = "string \<rightharpoonup> string"

definition RedisStorage_Load :: "json_codec \<Rightarrow> RedisStorage \<Rightarrow> string \<Rightarrow> error + Message list" where
  "RedisStorage_Load j db chatid =
     (case db chatid of
        None \<Rightarrow> Inl (ErrMsg ''redis: nil'')
      | Some val \<Rightarrow>
          (case UnmarshalMessages j val of
             Inl err \<Rightarrow> Inl err
           | Inr messages \<Rightarrow> Inr messages))"

definition RedisStorage_Store ::
  "json_codec \<Rightarrow> RedisStorage \<Rightarrow> string \<Rightarrow> Message list \<Rightarrow> error option \<times> RedisStorage" where
  "RedisStorage_Store j db chatid messages =
     (case Marshal j messages of
        Inl err \<Rightarrow> (Some err, db)
      | Inr d \<Rightarrow> (None, db(chatid \<mapsto> d)))"

text \<open>A value of the interface type \<open>Storage\<close> is one of the three.\<close>

datatype Storage =
    Memory MemoryStorage
  | File FileStorage
  | Redis RedisStorage

fun Storage_Store ::
  "json_codec \<Rightarrow> Storage \<Rightarrow> string \<Rightarrow> Message list \<Rightarrow> error option \<times> Storage" where
  "Storage_Store j (Memory s) chatid h = map_prod (\<lambda>e. e) Memory (MemoryStorage_Store s chatid h)"
| "Storage_Store j (File db) chatid h = map_prod (\<lambda>e. e) File (FileStorage_Store j db chatid h)"
| "Storage_Store j (Redis db) chatid h = map_prod (\<lambda>e. e) Redis (RedisStorage_Store j db chatid h)"

fun Storage_Load :: "json_codec \<Rightarrow> Storage \<Rightarrow> string \<Rightarrow> error + Message list" where
  "Storage_Load j (Memory s) chatid = MemoryStorage_Load s chatid"
| "Storage_Load j (File db) chatid = FileStorage_Load j db chatid"
| "Storage_Load j (Redis db) chatid = RedisStorage_Load j db chatid"

text \<open>
  The restore of a fresh session, as \<open>ChatsManager.Chat\<close> does it: a new \<open>Chat\<close> with
  the configured capacity, the history loaded under the key (a failed load counts as no
  history), and \<open>SetHistory\<close> when the loaded list is not empty.
\<close>

definition restore_session ::
  "json_codec \<Rightarrow> Storage \<Rightarrow> string \<Rightarrow> string \<Rightarrow> string \<Rightarrow> int \<Rightarrow> (error option \<times> (failure + Chat))" where
  "restore_session j st keyid modelName apiKey maxHistory =
     (let ch = chat_New keyid modelName [WithAPIKey apiKey, WithMaxHistory maxHistory];
          (err, his) = (case Storage_Load j st keyid of
                          Inl err \<Rightarrow> (Some err, [])
                        | Inr his \<Rightarrow> (None, his))
      in (err, if length his > 0 then Chat_SetHistory ch his else Inr ch))"

section \<open>mcp/mcpcli.go: the tool client\<close>

text \<open>
  The tool servers and the libraries in front of them are external collaborators:
  \<open>GetSHA1\<close> is the hash of the toolbox, \<open>UnmarshalFromString\<close> parses the argument
  text of a tool call, the other four are the calls of the MCP client library (a
  connection is named by the address it was opened to; \<open>CallTool\<close> gets the request
  name, the parsed arguments and the timeout of its context, and returns the printed
  content of the result or an error, a timeout included). \<open>UniqueSlice_Store\<close> is the
  \<open>Store\<close> of the toolbox's deduplicating slice.
\<close>

type_synonym conn = string

record McpTool =
  McpName :: string
  McpDescription :: string
  McpProperties :: string

record 'arg mcp_env =
  GetSHA1 :: "string \<Rightarrow> string"
  UnmarshalFromString :: "string \<Rightarrow> error + 'arg"
  NewSSEMCPClient :: "string \<Rightarrow> error + conn"
  Initialize :: "conn \<Rightarrow> error option"
  ListTools :: "conn \<Rightarrow> error + McpTool list"
  CallTool :: "conn \<Rightarrow> string \<Rightarrow> 'arg \<Rightarrow> nat \<Rightarrow> error + string"
  UniqueSlice_Store :: "Tool list \<Rightarrow> Tool \<Rightarrow> Tool list"

record mcp_Opt =
  timeout :: nat

definition Second :: nat where
  "Second = 1000000000"

definition WithTimeout :: "nat \<Rightarrow> mcp_Opt \<Rightarrow> mcp_Opt" where
  "WithTimeout t opt = opt\<lparr>timeout := t\<rparr>"

text \<open>\<open>mclient\<close>: \<open>cli\<close> is a pointer to a client, nil (\<open>None\<close>) until one is connected.\<close>

record mclient =
  uri :: string
  cli :: "conn option"

text \<open>
  \<open>McpClient\<close>: \<open>clis\<close> holds pointers to \<open>mclient\<close>; \<open>idx\<close> is a Go map that
  may be nil (\<open>None\<close>): reading a nil map gives the zero value, writing to it panics.
\<close>

record McpClient =
  clis :: "string \<rightharpoonup> mclient"
  idx :: "(string \<rightharpoonup> string) option"
  mcp_tools :: "Tool list"

definition mcpcli_New :: McpClient where
  "mcpcli_New = \<lparr> clis = Map.empty, idx = None, mcp_tools = [] \<rparr>"

text \<open>
  \<open>Call\<close>: \<open>m.idx[name]\<close> is the empty string when the name is not indexed (or the
  index is nil), \<open>m.clis[...]\<close> is the nil pointer when there is no such client, and
  \<open>.cli\<close> reads through it.
\<close>

definition McpClient_Call ::
  "'arg mcp_env \<Rightarrow> McpClient \<Rightarrow> ToolCall \<Rightarrow> (mcp_Opt \<Rightarrow> mcp_Opt) list \<Rightarrow> failure + Message" where
  "McpClient_Call env m tc opts =
     (let co = fold (\<lambda>opt co. opt co) opts \<lparr> timeout = 60 * Second \<rparr>
      in case UnmarshalFromString env (Arguments (Function tc)) of
           Inl err \<Rightarrow> Inl (Error err)
         | Inr arg \<Rightarrow>
             (let key = (case idx m of
                           None \<Rightarrow> ''''
                         | Some ix \<Rightarrow> (case ix (Name (Function tc)) of None \<Rightarrow> '''' | Some k \<Rightarrow> k))
              in case deref (clis m key) of
                   Inl f \<Rightarrow> Inl f
                 | Inr mc \<Rightarrow>
                     (case deref (cli mc) of
                        Inl f \<Rightarrow> Inl f
                      | Inr cn \<Rightarrow>
                          (case CallTool env cn (Name (Function tc)) arg (timeout co) of
                             Inl err \<Rightarrow> Inl (Error err)
                           | Inr content \<Rightarrow>
                               Inr \<lparr> Role = ''tool'', Content = Some content,
                                     ToolCallID = ID tc \<rparr>))))"

definition McpClient_Tools :: "McpClient \<Rightarrow> Tool list" where
  "McpClient_Tools m = mcp_tools m"

definition McpClient_ToolCount :: "McpClient \<Rightarrow> int" where
  "McpClient_ToolCount m = int (length (mcp_tools m))"

text \<open>The registration loop of \<open>loadTools\<close> over the tools the server lists.\<close>

fun loadTools_register ::
  "'arg mcp_env \<Rightarrow> string \<Rightarrow> McpClient \<Rightarrow> McpTool list \<Rightarrow> panic option \<times> McpClient" where
  "loadTools_register env clikey m [] = (None, m)"
| "loadTools_register env clikey m (mcptool # rest) =
     (let vt = \<lparr> ToolType = ''function'', ToolName = McpName mcptool,
                  ToolDescription = McpDescription mcptool,
                  ToolParameters = McpProperties mcptool \<rparr>
      in case idx m of
           None \<Rightarrow> (Some NilMapWrite, m)
         | Some ix \<Rightarrow>
             loadTools_register env clikey
               (m\<lparr>idx := Some (ix(McpName mcptool \<mapsto> clikey)),
                   mcp_tools := UniqueSlice_Store env (mcp_tools m) vt\<rparr>) rest)"

text \<open>
  \<open>loadTools\<close>. \<open>cli, ok := m.clis[clikey]\<close>: when the lookup misses, \<open>ok\<close> is false
  and \<open>cli\<close> is the nil pointer. The branch for \<open>!ok\<close> starts with
  \<open>client.NewSSEMCPClient(cli.uri)\<close>, whose argument reads through \<open>cli\<close>; it goes on
  to initialize the connection and to store \<open>cli\<close> under \<open>clikey\<close>. After the branch
  the tools are listed through \<open>cli.cli\<close> and registered.
\<close>

definition loadTools_connect ::
  "'arg mcp_env \<Rightarrow> McpClient \<Rightarrow> string \<Rightarrow> mclient option \<Rightarrow> failure + mclient \<times> McpClient" where
  "loadTools_connect env m clikey cli0 =
     (case deref cli0 of
        Inl f \<Rightarrow> Inl f
      | Inr c \<Rightarrow>
          (case NewSSEMCPClient env (uri c) of
             Inl err \<Rightarrow> Inl (Error err)
           | Inr cn \<Rightarrow>
               (case Initialize env cn of
                  Some err \<Rightarrow> Inl (Error err)
                | None \<Rightarrow>
                    Inr (c\<lparr>cli := Some cn\<rparr>,
                         m\<lparr>clis := (clis m)(clikey \<mapsto> c\<lparr>cli := Some cn\<rparr>)\<rparr>))))"

definition McpClient_loadTools ::
  "'arg mcp_env \<Rightarrow> McpClient \<Rightarrow> string \<Rightarrow> (failure + Tool list) \<times> McpClient" where
  "McpClient_loadTools env m mcpUri =
     (let clikey = GetSHA1 env mcpUri;
          cli0 = clis m clikey;
          ok = (cli0 \<noteq> None)
      in case (if \<not> ok then loadTools_connect env m clikey cli0
               else (case deref cli0 of Inl f \<Rightarrow> Inl f | Inr c \<Rightarrow> Inr (c, m))) of
           Inl f \<Rightarrow> (Inl f, m)
         | Inr (c, m1) \<Rightarrow>
             (case deref (cli c) of
                Inl f \<Rightarrow> (Inl f, m1)
              | Inr cn \<Rightarrow>
                  (case ListTools env cn of
                     Inl err \<Rightarrow> (Inl (Error err), m1)
                   | Inr listed \<Rightarrow>
                       (case loadTools_register env clikey m1 listed of
                          (Some p, m2) \<Rightarrow> (Inl (Panic p), m2)
                        | (None, m2) \<Rightarrow> (Inr (mcp_tools m2), m2)))))"

definition McpClient_AddTools ::
  "'arg mcp_env \<Rightarrow> McpClient \<Rightarrow> string \<Rightarrow> failure option \<times> McpClient" where
  "McpClient_AddTools env m mcpUri =
     (if mcpUri = '''' then (None, m)
      else (case McpClient_loadTools env m mcpUri of
              (Inl f, m') \<Rightarrow> (Some f, m')
            | (Inr _, m') \<Rightarrow> (None, m')))"

section \<open>chats_manager.go: the registry of sessions\<close>

text \<open>
  The configuration (\<open>llm.Opt\<close>). The logger is an external collaborator; what is
  handed to it is kept in the \<open>logged\<close> field of the manager, in order.
\<close>

datatype log_entry = LogError string | LogWarning string

fun error_text :: "error \<Rightarrow> string" where
  "error_text EOF = ''EOF''"
| "error_text (ErrMsg s) = s"

record Opt =
  dataStorage :: Storage
  chatLifeTime :: nat
  cnf_roleSystem :: "Message list"
  baseURI :: string
  modelName :: string
  apiKey :: string
  maxHistory :: int

text \<open>
  \<open>chats\<close> is the toolbox's map of pointers to sessions: \<open>LoadForUpdate\<close> hands out
  the stored pointer, \<open>Store\<close> puts a pointer under a key. A session changed through
  its pointer is changed in the map, so the model writes it back under the key that
  holds it.
\<close>

record ChatsManager =
  chats :: "string \<rightharpoonup> Chat"
  mcpCli :: McpClient
  cnf :: Opt
  logged :: "log_entry list"

text \<open>
  \<open>NewChatsManager\<close>: the defaults with the options applied, no session, a new tool
  client. The goroutine it starts (every five minutes: drop the sessions idle for longer
  than \<open>chatLifeTime\<close>, store the history of the others) runs beside the calls and is
  not part of this model.
\<close>

definition Hour :: nat where
  "Hour = 3600 * Second"

definition NewChatsManager :: "(Opt \<Rightarrow> Opt) list \<Rightarrow> ChatsManager" where
  "NewChatsManager opts =
     \<lparr> chats = Map.empty,
       mcpCli = mcpcli_New,
       cnf = fold (\<lambda>opt co. opt co) opts
               \<lparr> dataStorage = Memory NewMemoryStorage,
                 chatLifeTime = 7 * 24 * Hour,
                 cnf_roleSystem = [],
                 baseURI = ''http://127.0.0.1:11434'',
                 modelName = ''qwen3:8b'',
                 apiKey = ''your_api_key'',
                 maxHistory = 500 \<rparr>,
       logged = [] \<rparr>"

definition chatErrorFmt :: "string \<Rightarrow> error \<Rightarrow> string" where
  "chatErrorFmt i err = ''chat ['' @ i @ ''] error: '' @ error_text err"

fun InitMcp :: "'arg mcp_env \<Rightarrow> ChatsManager \<Rightarrow> string list \<Rightarrow> panic option \<times> ChatsManager" where
  "InitMcp env cm [] = (None, cm)"
| "InitMcp env cm (u # us) =
     (case McpClient_AddTools env (mcpCli cm) u of
        (Some (Panic p), m') \<Rightarrow> (Some p, cm\<lparr>mcpCli := m'\<rparr>)
      | (Some (Error err), m') \<Rightarrow>
          InitMcp env
            (cm\<lparr>mcpCli := m',
                logged := logged cm
                  @ [LogError (''init mcp client ['' @ u @ ''] error: '' @ error_text err)]\<rparr>) us
      | (None, m') \<Rightarrow> InitMcp env (cm\<lparr>mcpCli := m'\<rparr>) us)"

definition ChatsManager_History :: "ChatsManager \<Rightarrow> string \<Rightarrow> Message list" where
  "ChatsManager_History cm i =
     (case chats cm i of None \<Rightarrow> [] | Some ch \<Rightarrow> Chat_History ch)"

text \<open>
  The first part of \<open>ChatsManager.Chat\<close>: the session for an id. The result is the
  session, the key of \<open>chats\<close> that holds it, and whether it was created by
  this call; the manager comes back with the new session stored and the load error
  logged. \<open>SetHistory\<close> on a ring of no capacity panics before anything is stored.
\<close>

definition ChatsManager_session ::
  "'arg mcp_env \<Rightarrow> json_codec \<Rightarrow> ChatsManager \<Rightarrow> string
     \<Rightarrow> (failure + Chat \<times> string \<times> bool) \<times> ChatsManager" where
  "ChatsManager_session env j cm i =
     (let keyid = GetSHA1 env i
      in case chats cm keyid of
           Some ch \<Rightarrow> (Inr (ch, keyid, False), cm)
         | None \<Rightarrow>
             (case restore_session j (dataStorage (cnf cm)) keyid
                     (modelName (cnf cm)) (apiKey (cnf cm)) (maxHistory (cnf cm)) of
                (err, r) \<Rightarrow>
                  (let cm1 = (case err of
                                None \<Rightarrow> cm
                              | Some e \<Rightarrow>
                                  cm\<lparr>logged := logged cm
                                       @ [LogError (''load chat history error: '' @ error_text e)]\<rparr>)
                   in case r of
                        Inl f \<Rightarrow> (Inl f, cm1)
                      | Inr ch \<Rightarrow> (Inr (ch, i, True), cm1\<lparr>chats := (chats cm1)(i \<mapsto> ch)\<rparr>))))"

text \<open>
  The dispatch of the tool calls the model asked for. The source starts one goroutine
  per call and collects the messages over a channel, so the order of \<open>msgs\<close> and of the
  log lines is not fixed; the model runs the calls in the order of the list. A call
  that returns an error is logged and adds no message. A panic inside a goroutine is
  recovered nowhere: it ends the process, and the dispatch with it.

  \<open>wg\<close> is the counter of the \<open>sync.WaitGroup\<close>: \<open>wg.Go(f)\<close> adds one, runs
  \<open>f\<close> in a goroutine and takes one off when \<open>f\<close> returns; \<open>wg.Wait()\<close> returns
  when the counter is zero.
\<close>

fun tool_dispatch ::
  "'arg mcp_env \<Rightarrow> McpClient \<Rightarrow> int \<Rightarrow> ToolCall list
     \<Rightarrow> panic option \<times> Message list \<times> log_entry list \<times> int" where
  "tool_dispatch env m wg [] = (None, [], [], wg)"
| "tool_dispatch env m wg (v # vs) =
     (case McpClient_Call env m v [WithTimeout (60 * Second)] of
        Inl (Panic p) \<Rightarrow> (Some p, [], [], wg + 1)
      | Inl (Error err) \<Rightarrow>
          (case tool_dispatch env m (wg + 1 - 1) vs of
             (p, msgs, logs, wg') \<Rightarrow>
               (p, msgs,
                LogError (''mcp call '' @ Name (Function v) @ '' error: '' @ error_text err) # logs,
                wg'))
      | Inr msg \<Rightarrow>
          (case tool_dispatch env m (wg + 1 - 1) vs of
             (p, msgs, logs, wg') \<Rightarrow> (p, msg # msgs, logs, wg')))"

text \<open>
  \<open>ChatsManager.Chat\<close>: the session, the first turn, the dispatch, the second turn.
  It returns nothing; the model returns how the call ends (it returns, it panics, or it
  blocks for ever), the manager and the state of the write function. Before the
  dispatch the source calls \<open>wg.Add(l)\<close> with the number \<open>l\<close> of tool calls, and
  after it \<open>wg.Wait()\<close>; what follows the wait is reached only with the counter at
  zero. \<open>now1\<close> and \<open>now2\<close> are the clock at the end of the two turns.
\<close>

datatype ending = Returns | Panics panic | Blocks

definition ChatsManager_Chat ::
  "'arg mcp_env \<Rightarrow> json_codec \<Rightarrow> backend \<Rightarrow> nat \<Rightarrow> nat \<Rightarrow> ChatsManager \<Rightarrow> string \<Rightarrow> string
     \<Rightarrow> 's writeFunc \<Rightarrow> 's \<Rightarrow> ending \<times> ChatsManager \<times> 's" where
  "ChatsManager_Chat env j b now1 now2 cm i message w s =
     (case ChatsManager_session env j cm i of
        (Inl (Panic p), cm0) \<Rightarrow> (Panics p, cm0, s)
      | (Inl (Error err), cm0) \<Rightarrow> (Returns, cm0, s)
      | (Inr (ch, key, created), cm0) \<Rightarrow>
          (case Chat_Chat b now1 ch message
                  [WithTools (McpClient_Tools (mcpCli cm0)),
                   WithWriteFunc w,
                   WithStream (McpClient_ToolCount (mcpCli cm0) = 0)] s of
             (r, ch1, s1) \<Rightarrow>
               (let cm1 = cm0\<lparr>chats := (chats cm0)(key \<mapsto> ch1)\<rparr>
                in case r of
                     Inl (Panic p) \<Rightarrow> (Panics p, cm1, s1)
                   | Inl (Error err) \<Rightarrow>
                       (Returns,
                        cm1\<lparr>logged := logged cm1 @ [LogError (chatErrorFmt (Chat_ID ch1) err)]\<rparr>,
                        s1)
                   | Inr toolcall \<Rightarrow>
                       (if length toolcall > 0 then
                          (case tool_dispatch env (mcpCli cm1) (0 + int (length toolcall))
                                  (map snd toolcall) of
                             (Some p, msgs, logs, wg) \<Rightarrow>
                               (Panics p, cm1\<lparr>logged := logged cm1 @ logs\<rparr>, s1)
                           | (None, msgs, logs, wg) \<Rightarrow>
                               (let cm2 = cm1\<lparr>logged := logged cm1 @ logs\<rparr>
                                in if wg \<noteq> 0 then (Blocks, cm2, s1)
                                   else if length msgs > 0 then
                                     (case Chat_Chat b now2 ch1 ''''
                                             [WithToolCalled msgs,
                                              WithStream True,
                                              WithWriteFunc w,
                                              WithRoleSystem (cnf_roleSystem (cnf cm2))] s1 of
                                        (r2, ch2, s2) \<Rightarrow>
                                          (let cm3 = cm2\<lparr>chats := (chats cm2)(key \<mapsto> ch2)\<rparr>
                                           in case r2 of
                                                Inl (Panic p) \<Rightarrow> (Panics p, cm3, s2)
                                              | Inl (Error err) \<Rightarrow>
                                                  (Returns,
                                                   cm3\<lparr>logged := logged cm3
                                                        @ [LogError (chatErrorFmt (Chat_ID ch2) err)]\<rparr>,
                                                   s2)
                                              | Inr _ \<Rightarrow> (Returns, cm3, s2)))
                                   else (Returns, cm2, s1)))
                        else (Returns, cm1, s1)))))"

section \<open>Notions used in the statements\<close>

text \<open>
  The tool-call deltas of a run of fragments, in arrival order (the loop looks at the
  first choice of a fragment only), and the runs that carry none.
\<close>

fun tool_deltas :: "Delta list list \<Rightarrow> ToolCall list" where
  "tool_deltas [] = []"
| "tool_deltas ([] # cs) = tool_deltas cs"
| "tool_deltas ((d # ds) # cs) = DeltaToolCalls d @ tool_deltas cs"

fun no_tool_calls :: "Delta list list \<Rightarrow> bool" where
  "no_tool_calls [] = True"
| "no_tool_calls ([] # cs) = no_tool_calls cs"
| "no_tool_calls ((d # ds) # cs) = (DeltaToolCalls d = [] \<and> no_tool_calls cs)"

text \<open>
  The text of a run of fragments: the contents that the loop forwards and collects, in
  arrival order.
\<close>

fun text_deltas :: "Delta list list \<Rightarrow> string" where
  "text_deltas [] = ''''"
| "text_deltas ([] # cs) = text_deltas cs"
| "text_deltas ((d # ds) # cs) =
     (if DeltaRole d = ''assistant'' \<and> DeltaContent d \<noteq> '''' then DeltaContent d else '''')
     @ text_deltas cs"

text \<open>
  What a turn appends to the history before it calls the model: the user message, when
  there is one, and the tool results handed in.
\<close>

definition turn_inputs :: "string \<Rightarrow> 's chat_Opt \<Rightarrow> Message list" where
  "turn_inputs message co =
     (if length message > 0
      then [\<lparr> Role = ''user'', Content = Some message, ToolCallID = '''' \<rparr>] else [])
     @ toolcalled co"

subsection \<open>Concrete collaborators and inputs\<close>

text \<open>
  A model service that answers every streaming request with a given stream, one that
  refuses every request, a write function that keeps what it is given, one that takes
  a single write and refuses the next, and deltas that carry a text or one tool call.
\<close>

definition stream_backend :: "stream \<Rightarrow> backend" where
  "stream_backend st =
     \<lparr> CreateChatCompletionStream = (\<lambda>req. Inr st),
       CreateChatCompletion = (\<lambda>req. Inl (ErrMsg ''no answer'')) \<rparr>"

definition refusing_backend :: backend where
  "refusing_backend =
     \<lparr> CreateChatCompletionStream = (\<lambda>req. Inl (ErrMsg ''connection refused'')),
       CreateChatCompletion = (\<lambda>req. Inl (ErrMsg ''connection refused'')) \<rparr>"

definition keep_writes :: "string list writeFunc" where
  "keep_writes s d = (None, s @ [d])"

definition one_write_only :: "string list writeFunc" where
  "one_write_only s d = (if s = [] then (None, [d]) else (Some (ErrMsg ''closed''), s))"

definition text_delta :: "string \<Rightarrow> Delta" where
  "text_delta t = \<lparr> DeltaRole = ''assistant'', DeltaContent = t, DeltaToolCalls = [] \<rparr>"

definition call_delta :: "string \<Rightarrow> string \<Rightarrow> string \<Rightarrow> Delta" where
  "call_delta i n a =
     \<lparr> DeltaRole = ''assistant'', DeltaContent = '''',
       DeltaToolCalls = [\<lparr> ID = i, Function = \<lparr> Name = n, Arguments = a \<rparr>,
                           Type = ''function'' \<rparr>] \<rparr>"

definition example_request :: CreateChatCompletionRequest where
  "example_request = \<lparr> Model = ''m'', Messages = [], Stream = True, Tools = [] \<rparr>"

definition example_chat :: Chat where
  "example_chat = chat_New ''k'' ''m'' [WithMaxHistory 4]"

text \<open>
  Tool servers where every address connects and every tool but \<open>fail\<close> answers, and
  a client connected to one of them that knows the tools \<open>known\<close> and \<open>fail\<close>; the
  argument parser accepts a text that opens a JSON object. Its \<open>GetSHA1\<close> is a stand-in
  for the hash that, like the hash, never returns its argument. A codec that writes a
  list of messages as an array and refuses to read an array as a single message.
\<close>

definition example_env :: "string mcp_env" where
  "example_env =
     \<lparr> GetSHA1 = (\<lambda>s. ''sha1-'' @ s),
       UnmarshalFromString =
         (\<lambda>s. case s of
                 [] \<Rightarrow> Inl (ErrMsg ''unexpected end of input'')
               | c # _ \<Rightarrow> if c = CHR ''{'' then Inr s else Inl (ErrMsg ''invalid character'')),
       NewSSEMCPClient = (\<lambda>u. Inr u),
       Initialize = (\<lambda>cn. None),
       ListTools = (\<lambda>cn. Inr []),
       CallTool = (\<lambda>cn n a t. if n = ''fail'' then Inl (ErrMsg ''tool failed'')
                                 else Inr (''result of '' @ n)),
       UniqueSlice_Store = (\<lambda>ts t. if t \<in> set ts then ts else ts @ [t]) \<rparr>"

definition example_client :: McpClient where
  "example_client =
     \<lparr> clis = [''sha1-u'' \<mapsto> \<lparr> uri = ''u'', cli = Some ''u'' \<rparr>],
       idx = Some [''known'' \<mapsto> ''sha1-u'', ''fail'' \<mapsto> ''sha1-u''],
       mcp_tools = [] \<rparr>"

definition example_call :: "string \<Rightarrow> string \<Rightarrow> ToolCall" where
  "example_call i n =
     \<lparr> ID = i, Function = \<lparr> Name = n, Arguments = ''{}'' \<rparr>, Type = ''function'' \<rparr>"

definition example_codec :: json_codec where
  "example_codec =
     \<lparr> Marshal = (\<lambda>ms. Inr (''['' @ concat (map (\<lambda>m. ''{'' @ Role m @ ''}'') ms) @ '']'')),
       UnmarshalMessage =
         (\<lambda>s. Inl (ErrMsg ''cannot unmarshal array into Go value of type ChatCompletionMessage'')),
       UnmarshalMessages = (\<lambda>s. Inl (ErrMsg ''not read'')) \<rparr>"

definition example_message :: "string \<Rightarrow> string \<Rightarrow> Message" where
  "example_message r t = \<lparr> Role = r, Content = Some t, ToolCallID = '''' \<rparr>"

section \<open>Properties of the ring\<close>

lemma ring_Do_read_only:
  assumes "k \<le> length r"
  shows "fold (\<lambda>i s. (\<lambda>a (r, x). (r, g a x)) (fst s ! i) s) [0..<k] (r, x)
         = (r, fold g (take k r) x)"
  using assms
proof (induction k)
  case 0
  then show ?case by simp
next
  case (Suc k)
  then have "take (Suc k) r = take k r @ [r ! k]"
    by (simp add: take_Suc_conv_app_nth)
  with Suc show ?case by simp
qed

lemma History_Slice_fold:
  "History_Slice u = fold (\<lambda>a x. case a of None \<Rightarrow> x | Some m \<Rightarrow> x @ [m]) (data u) []"
  using ring_Do_read_only [of "length (data u)" "data u"
      "\<lambda>a x. case a of None \<Rightarrow> x | Some m \<Rightarrow> x @ [m]" "[]"]
  by (simp add: History_Slice_def ring_Do_def)

lemma fold_collect:
  "fold (\<lambda>a x. case a of None \<Rightarrow> x | Some m \<Rightarrow> x @ [m]) r acc
   = acc @ map the (filter (\<lambda>a. a \<noteq> None) r)"
  by (induction r arbitrary: acc) (auto split: option.splits)

lemma History_Slice_filter: "History_Slice u = map the (filter (\<lambda>a. a \<noteq> None) (data u))"
  by (simp add: History_Slice_fold fold_collect)

lemma History_Clear_fold:
  "fold (\<lambda>i s. (\<lambda>a (r, x). (None # tl r, x)) (fst s ! i) s) [0..<k] (r, ())
   = (if k = 0 then r else None # tl r, ())"
  by (induction k) auto

lemma data_Clear: "data (History_Clear u) = (if data u = [] then [] else None # tl (data u))"
  by (simp add: History_Clear_def ring_Do_def History_Clear_fold)

lemma History_StoreMany_data:
  "data u \<noteq> [] \<Longrightarrow>
   History_StoreMany u xs = Inr (u\<lparr>data := drop (length xs) (data u @ map Some xs)\<rparr>)"
proof (induction xs arbitrary: u)
  case Nil
  then show ?case by simp
next
  case (Cons x xs)
  let ?u = "u\<lparr>data := ring_Next (Some x # tl (data u))\<rparr>"
  have step: "data ?u = tl (data u) @ [Some x]"
    by (simp add: ring_Next_def)
  then have ne: "data ?u \<noteq> []" by simp
  have "drop (length xs) (data ?u @ map Some xs)
        = drop (length (x # xs)) (data u @ map Some (x # xs))"
    using Cons.prems step by (cases "data u") simp_all
  with Cons.IH [OF ne] Cons.prems show ?case by simp
qed

lemma History_Store_each_StoreMany: "History_Store_each u xs = History_StoreMany u xs"
  by (induction xs arbitrary: u) (simp_all add: History_Store_def)

lemma New_data: "1 \<le> C \<Longrightarrow> data (history_New C :: 'm History) = replicate (nat C) None"
  by (simp add: history_New_def ring_New_def)

lemma History_Slice_after_appends:
  "History_Slice (u\<lparr>data := drop (length xs) (replicate c None @ map Some xs)\<rparr>)
   = drop (length xs - c) xs"
proof (cases "length xs \<le> c")
  case True
  then have "drop (length xs) (replicate c None @ map Some xs)
             = replicate (c - length xs) None @ map Some (xs :: 'a list)"
    by simp
  then show ?thesis using True by (simp add: History_Slice_filter filter_map comp_def)
next
  case False
  then show ?thesis by (simp add: History_Slice_filter filter_map comp_def drop_map)
qed

lemma history_New_StoreMany:
  assumes "1 \<le> C"
  shows "\<exists>h. History_StoreMany (history_New C) xs = Inr h
           \<and> History_Slice h = drop (length xs - nat C) xs"
proof -
  let ?u = "history_New C :: 'a History"
  have d: "data ?u = replicate (nat C) None"
    using assms by (rule New_data)
  then have ne: "data ?u \<noteq> []"
    using assms by simp
  let ?h = "?u\<lparr>data := drop (length xs) (data ?u @ map Some xs)\<rparr>"
  have many: "History_StoreMany ?u xs = Inr ?h"
    using ne by (rule History_StoreMany_data)
  have slice: "History_Slice ?h = drop (length xs - nat C) xs"
    unfolding d by (rule History_Slice_after_appends)
  with many show ?thesis by simp
qed

lemma history_New_Slice: "History_Slice (history_New C) = []"
  by (simp add: History_Slice_filter history_New_def ring_New_def)

section \<open>The history buffer: snapshot, length, clear\<close>

text \<open>
  Claim C7. For every capacity \<open>C \<ge> 1\<close> and every sequence \<open>xs\<close> of appended messages
  (appended by one \<open>StoreMany\<close> or by one \<open>Store\<close> per message), the appends succeed and
  the snapshot \<open>Slice\<close> is the last \<open>C\<close> messages of \<open>xs\<close> in their original order,
  oldest surviving message first; its length is \<open>min (length xs) C\<close>.
\<close>

theorem C7_snapshot_is_last_C:
  assumes "1 \<le> C"
  shows "\<exists>h. History_StoreMany (history_New C) xs = Inr h
           \<and> History_Store_each (history_New C) xs = Inr h
           \<and> History_Slice h = drop (length xs - nat C) xs
           \<and> length (History_Slice h) = min (length xs) (nat C)"
proof -
  obtain h where many: "History_StoreMany (history_New C) xs = Inr h"
    and slice: "History_Slice h = drop (length xs - nat C) xs"
    using history_New_StoreMany [OF assms, of xs] by blast
  have "length (History_Slice h) = min (length xs) (nat C)"
    unfolding slice by simp
  with many slice show ?thesis
    by (simp add: History_Store_each_StoreMany)
qed

theorem C7_snapshot_is_last_C_witness:
  "(1::int) \<le> 2 \<and>
   (\<exists>h. History_StoreMany (history_New 2) [10, 20, 30 :: nat] = Inr h
        \<and> History_Store_each (history_New 2) [10, 20, 30] = Inr h
        \<and> History_Slice h = [20, 30]
        \<and> length (History_Slice h) = 2)"
  using C7_snapshot_is_last_C [of 2 "[10, 20, 30 :: nat]"]
  by (auto simp del: History_StoreMany.simps History_Store_each.simps)

text \<open>
  Claim C8. \<open>Len\<close> is the capacity the buffer was created with, whatever has been stored:
  for \<open>C \<ge> 0\<close> it is \<open>C\<close> on the new buffer and after any appends that return (and
  after a \<open>Clear\<close>), and for \<open>C \<ge> 1\<close> every sequence of appends does return.
\<close>

theorem C8_Len_is_capacity:
  assumes "0 \<le> C"
  shows "History_Len (history_New C :: 'm History) = C
         \<and> (\<forall>h. History_StoreMany (history_New C) (xs :: 'm list) = Inr h
                 \<longrightarrow> History_Len h = C \<and> History_Len (History_Clear h) = C)
         \<and> (1 \<le> C \<longrightarrow> (\<exists>h. History_StoreMany (history_New C) xs = Inr h))"
proof (cases "C = 0")
  case True
  have "data (history_New 0 :: 'm History) = []"
    by (simp add: history_New_def ring_New_def)
  then show ?thesis
    using True by (cases xs) (simp_all add: History_Len_def ring_Len_def data_Clear)
next
  case False
  with assms have pos: "1 \<le> C" by simp
  let ?u = "history_New C :: 'm History"
  have d: "data ?u = replicate (nat C) None"
    using pos by (rule New_data)
  then have ne: "data ?u \<noteq> []"
    using pos by simp
  have many: "History_StoreMany ?u xs
              = Inr (?u\<lparr>data := drop (length xs) (data ?u @ map Some xs)\<rparr>)"
    using ne by (rule History_StoreMany_data)
  have len: "length (drop (length xs) (data ?u @ map Some xs)) = nat C"
    by (simp add: d)
  have new: "History_Len ?u = C"
    using pos by (simp add: History_Len_def ring_Len_def d)
  show ?thesis
    using pos len new unfolding many
    by (auto simp add: History_Len_def ring_Len_def data_Clear)
qed

theorem C8_Len_is_capacity_witness:
  "(0::int) \<le> 3
   \<and> History_Len (history_New 3 :: nat History) = 3
   \<and> (\<exists>h. History_StoreMany (history_New 3) [7 :: nat] = Inr h
          \<and> History_Len h = 3 \<and> History_Len (History_Clear h) = 3)"
  using C8_Len_is_capacity [of 3 "[7 :: nat]"]
  by (auto simp del: History_StoreMany.simps)

text \<open>
  Claim C2 (not met by the code). \<open>Clear\<close> is documented as setting all ring elements to
  nil, but its closure writes to the current element only. In a buffer of capacity 3
  holding two messages the current element is the empty slot, so \<open>Clear\<close> changes
  nothing: the snapshot after it is still both messages. The capacity is unchanged.
\<close>

theorem C2_Clear_keeps_messages:
  "\<exists>h. History_StoreMany (history_New 3) [a, b] = Inr h
       \<and> History_Slice h = [a, b]
       \<and> History_Slice (History_Clear h) = [a, b]
       \<and> History_Len (History_Clear h) = 3"
  by (simp add: history_New_def ring_New_def ring_Next_def History_Slice_filter data_Clear
      History_Len_def ring_Len_def numeral_3_eq_3)

section \<open>Properties of the streaming assembler\<close>

lemma map_of_map_put: "map_of (map_put m k v) = (map_of m)(k \<mapsto> v)"
  by (induction m k v rule: map_put.induct) auto

lemma map_put_same: "map_of m k = Some v \<Longrightarrow> map_put m k v = m"
  by (induction m k v rule: map_put.induct) (auto split: if_splits)

lemma map_put_twice: "map_put (map_put m k v) k v' = map_put m k v'"
  by (induction m k v rule: map_put.induct) auto

text \<open>Deltas with an empty id append their arguments to the current entry, in order.\<close>

lemma stream_tool_calls_continue:
  assumes "map_of m cur = Some e" and "\<forall>d \<in> set ds. ID d = ''''"
  shows "stream_tool_calls (m, cur) ds
         = Inr (map_put m cur
                  (e\<lparr>Function := (Function e)
                       \<lparr>Arguments := Arguments (Function e)
                                      @ concat (map (\<lambda>d. Arguments (Function d)) ds)\<rparr>\<rparr>),
                cur)"
  using assms
proof (induction ds arbitrary: m e)
  case Nil
  then show ?case by (simp add: map_put_same)
next
  case (Cons d ds)
  let ?e = "e\<lparr>Function := (Function e)
               \<lparr>Arguments := Arguments (Function e) @ Arguments (Function d)\<rparr>\<rparr>"
  have 1: "map_of (map_put m cur ?e) cur = Some ?e"
    by (simp add: map_of_map_put)
  have 2: "\<forall>d \<in> set ds. ID d = ''''"
    using Cons.prems by simp
  show ?case
    using Cons.prems Cons.IH [OF 1 2] by (simp add: map_put_twice)
qed

lemma stream_tool_calls_open:
  assumes "ID tc \<noteq> ''''" and "map_of m (ID tc) = None" and "\<forall>d \<in> set ds. ID d = ''''"
  shows "stream_tool_calls (m, cur) (tc # ds)
         = Inr (map_put m (ID tc)
                  \<lparr> ID = ID tc,
                    Function = \<lparr> Name = Name (Function tc),
                                 Arguments = Arguments (Function tc)
                                      @ concat (map (\<lambda>d. Arguments (Function d)) ds) \<rparr>,
                    Type = Type tc \<rparr>,
                ID tc)"
proof -
  let ?e = "\<lparr> ID = ID tc,
               Function = \<lparr> Name = Name (Function tc), Arguments = Arguments (Function tc) \<rparr>,
               Type = Type tc \<rparr>"
  have 1: "map_of (map_put m (ID tc) ?e) (ID tc) = Some ?e"
    by (simp add: map_of_map_put)
  show ?thesis
    using assms(1,2) stream_tool_calls_continue [OF 1 assms(3)]
    by (simp add: map_put_twice)
qed

lemma stream_tool_calls_append:
  "stream_tool_calls st (xs @ ys)
   = (case stream_tool_calls st xs of Inl f \<Rightarrow> Inl f | Inr st' \<Rightarrow> stream_tool_calls st' ys)"
proof (induction xs arbitrary: st)
  case Nil
  then show ?case by (cases st) simp
next
  case (Cons x xs)
  obtain m cur where st: "st = (m, cur)" by (cases st)
  show ?case unfolding st using Cons.IH
    by (simp split: option.splits)
qed

text \<open>A run of fragments that was received without failure can be cut off the stream.\<close>

lemma stream_loop_chunks_append:
  "stream_loop w (map Inr cs) st s = (Inr st', s')
   \<Longrightarrow> stream_loop w (map Inr cs @ rest) st s = stream_loop w rest st' s'"
proof (induction cs arbitrary: st s)
  case Nil
  then show ?case by (cases st) simp
next
  case (Cons c cs)
  obtain m cur msg where st: "st = (m, cur, msg)" by (cases st)
  show ?case
  proof (cases c)
    case Nil
    with Cons st show ?thesis by simp
  next
    case (Cons d ds)
    with Cons.prems Cons.IH st show ?thesis
      by (auto split: if_splits prod.splits option.splits sum.splits)
  qed
qed

lemma stream_loop_tool_deltas:
  assumes "\<forall>s t. fst (w s t) = None"
    and "stream_tool_calls (m, cur) (tool_deltas cs) = Inr (m', cur')"
  shows "\<exists>msg' s'. stream_loop w (map Inr cs) (m, cur, msg) s = (Inr (m', cur', msg'), s')"
  using assms(2)
proof (induction cs arbitrary: m cur msg s rule: tool_deltas.induct)
  case 1
  then show ?case by simp
next
  case (2 cs)
  then show ?case by simp
next
  case (3 d ds cs)
  obtain e s1 where w: "w s (DeltaContent d) = (e, s1)"
    by (cases "w s (DeltaContent d)")
  with assms(1) have e: "e = None" by (metis fst_conv)
  from "3.prems" obtain m1 cur1 where
    a: "stream_tool_calls (m, cur) (DeltaToolCalls d) = Inr (m1, cur1)" and
    b: "stream_tool_calls (m1, cur1) (tool_deltas cs) = Inr (m', cur')"
    by (auto simp add: stream_tool_calls_append split: sum.splits)
  show ?case
    using "3.IH" [OF b] a w e by simp
qed

lemma stream_loop_no_tool_calls:
  assumes "no_tool_calls cs" and "\<forall>s t. fst (w s t) = None"
  shows "\<exists>msg' s'. stream_loop w (map Inr cs) (m, cur, msg) s = (Inr (m, cur, msg'), s')"
  using assms(1)
proof (induction cs arbitrary: msg s rule: no_tool_calls.induct)
  case 1
  then show ?case by simp
next
  case (2 cs)
  then show ?case by simp
next
  case (3 d ds cs)
  obtain e s1 where w: "w s (DeltaContent d) = (e, s1)"
    by (cases "w s (DeltaContent d)")
  with assms(2) have e: "e = None" by (metis fst_conv)
  from 3 have tc: "DeltaToolCalls d = []" and rest: "no_tool_calls cs"
    by simp_all
  show ?case
    using "3.IH" [OF rest] w e tc by simp
qed

text \<open>\<open>doStream\<close> and the session: a failure leaves the session as it was.\<close>

lemma doStream_failure_keeps_chat:
  "doStream b c req w s = (Inl f, c', s') \<Longrightarrow> c' = c"
  by (auto simp: doStream_def split: sum.splits prod.splits if_splits)

lemma doStream_transport_error:
  assumes "CreateChatCompletionStream b req = Inr (map Inr cs @ Inl err # rest)"
    and "err \<noteq> EOF"
    and "stream_loop w (map Inr cs) ([], '''', '''') s = (Inr st, s')"
  shows "doStream b c req w s = (Inl (Error err), c, s')"
proof -
  obtain m cur msg where st: "st = (m, cur, msg)" by (cases st)
  have "stream_loop w (map Inr cs @ Inl err # rest) ([], '''', '''') s = (Inl (Error err), s')"
    using stream_loop_chunks_append [OF assms(3)] assms(2) st by simp
  then show ?thesis using assms(1) by (simp add: doStream_def)
qed

lemma doStream_sink_error:
  assumes "CreateChatCompletionStream b req = Inr (map Inr cs @ Inr (d # ds) # rest)"
    and "stream_loop w (map Inr cs) ([], '''', '''') s = (Inr st, s')"
    and "DeltaRole d = ''assistant''" and "DeltaContent d \<noteq> ''''"
    and "w s' (DeltaContent d) = (Some err, s'')"
  shows "doStream b c req w s = (Inl (Error err), c, s'')"
proof -
  obtain m cur msg where st: "st = (m, cur, msg)" by (cases st)
  have "stream_loop w (map Inr cs @ Inr (d # ds) # rest) ([], '''', '''') s
        = (Inl (Error err), s'')"
    using stream_loop_chunks_append [OF assms(2)] assms(3,4,5) st by simp
  then show ?thesis using assms(1) by (simp add: doStream_def)
qed

text \<open>The request that fails, and the finalize of a stream that ended gracefully.\<close>

lemma stream_loop_text:
  assumes "\<forall>s t. fst (w s t) = None"
    and "stream_tool_calls (m, cur) (tool_deltas cs) = Inr (m', cur')"
  shows "\<exists>s'. stream_loop w (map Inr cs) (m, cur, msg) s
              = (Inr (m', cur', msg @ text_deltas cs), s')"
  using assms(2)
proof (induction cs arbitrary: m cur msg s rule: tool_deltas.induct)
  case 1
  then show ?case by simp
next
  case (2 cs)
  then show ?case by simp
next
  case (3 d ds cs)
  obtain e s1 where w: "w s (DeltaContent d) = (e, s1)"
    by (cases "w s (DeltaContent d)")
  with assms(1) have e: "e = None" by (metis fst_conv)
  from "3.prems" obtain m1 cur1 where
    a: "stream_tool_calls (m, cur) (DeltaToolCalls d) = Inr (m1, cur1)" and
    b: "stream_tool_calls (m1, cur1) (tool_deltas cs) = Inr (m', cur')"
    by (auto simp add: stream_tool_calls_append split: sum.splits)
  show ?case
  proof (cases "DeltaRole d = ''assistant'' \<and> DeltaContent d \<noteq> ''''")
    case True
    from "3.IH" [OF b, of "msg @ DeltaContent d" s1] True a w e show ?thesis by simp
  next
    case False
    from "3.IH" [OF b, of msg s] False a show ?thesis by auto
  qed
qed

lemma doStream_request_error:
  "CreateChatCompletionStream b req = Inl err \<Longrightarrow> doStream b c req w s = (Inl (Error err), c, s)"
  by (simp add: doStream_def)

lemma doStream_finalize_empty:
  assumes "CreateChatCompletionStream b req = Inr items"
    and "stream_loop w items ([], '''', '''') s = (Inr (m, cur, ''''), s1)"
  shows "doStream b c req w s = (Inr m, c, s1)"
  using assms by (simp add: doStream_def)

lemma doStream_finalize_commit:
  assumes "CreateChatCompletionStream b req = Inr items"
    and "stream_loop w items ([], '''', '''') s = (Inr (m, cur, msg), s1)"
    and "msg \<noteq> ''''" and "data (history c) \<noteq> []"
  shows "doStream b c req w s
         = (Inr m,
            c\<lparr>history := (history c)
                 \<lparr>data := tl (data (history c))
                           @ [Some \<lparr> Role = ''assistant'', Content = Some msg,
                                     ToolCallID = '''' \<rparr>]\<rparr>\<rparr>,
            s1)"
  using assms by (simp add: doStream_def History_Store_def ring_Next_def)

lemma doStream_graceful:
  assumes "CreateChatCompletionStream b req = Inr (map Inr cs)"
    and "\<forall>s t. fst (w s t) = None"
    and "stream_tool_calls ([], '''') (tool_deltas cs) = Inr (m, cur)"
    and "data (history c) \<noteq> []"
  shows "\<exists>s1. doStream b c req w s
              = (Inr m,
                 (if text_deltas cs = '''' then c
                  else c\<lparr>history := (history c)
                         \<lparr>data := tl (data (history c))
                                   @ [Some \<lparr> Role = ''assistant'', Content = Some (text_deltas cs),
                                             ToolCallID = '''' \<rparr>]\<rparr>\<rparr>),
                 s1)"
proof -
  obtain s1 where
    l: "stream_loop w (map Inr cs) ([], '''', '''') s = (Inr (m, cur, text_deltas cs), s1)"
    using stream_loop_text [OF assms(2,3), of "''''" s] by auto
  show ?thesis
  proof (cases "text_deltas cs = ''''")
    case True
    with doStream_finalize_empty [OF assms(1), of w s m cur s1 c] l show ?thesis by auto
  next
    case False
    with doStream_finalize_commit [OF assms(1) l False assms(4)] show ?thesis by auto
  qed
qed

text \<open>The turn: what the history holds after a turn that returned an error.\<close>

lemma History_StoreMany_append:
  "History_StoreMany u (xs @ ys)
   = (case History_StoreMany u xs of Inl f \<Rightarrow> Inl f | Inr u' \<Rightarrow> History_StoreMany u' ys)"
  by (induction xs arbitrary: u) simp_all

lemma History_Store_as_StoreMany:
  "History_Store u m = Inr (t, u') \<Longrightarrow> History_StoreMany u [m] = Inr u'"
  by (auto simp: History_Store_def split: if_splits)

lemma History_StoreMany_never_Error: "History_StoreMany u ms \<noteq> Inl (Error err)"
  by (induction ms arbitrary: u) simp_all

lemma do_error_keeps_chat:
  "do b c req w s = (Inl (Error err), c', s') \<Longrightarrow> c' = c"
  by (auto simp: do_def History_Store_def
      split: sum.splits list.splits option.splits prod.splits if_splits)

lemma Chat_Chat_error_history:
  assumes "Chat_Chat b now c message opts s = (Inl (Error err), c', s')"
  shows "History_StoreMany (history c) (turn_inputs message (Chat_options c opts))
         = Inr (history c')"
proof -
  let ?co = "Chat_options c opts"
  let ?um = "\<lparr> Role = ''user'', Content = Some message, ToolCallID = '''' \<rparr>"
  obtain t u1 where s1:
    "(if length message > 0 then History_Store (history c) ?um else Inr (True, history c))
     = Inr (t, u1)"
    using assms
    by (auto simp: Chat_Chat_def Let_def History_Store_def split: sum.splits if_splits)
  then have m1:
    "History_StoreMany (history c) (if length message > 0 then [?um] else []) = Inr u1"
    by (auto dest: History_Store_as_StoreMany split: if_splits)
  obtain u2 where s2:
    "(if length (toolcalled ?co) > 0 then History_StoreMany u1 (toolcalled ?co) else Inr u1)
     = Inr u2"
    using assms s1
    by (cases "if length (toolcalled ?co) > 0
               then History_StoreMany u1 (toolcalled ?co) else Inr u1")
       (auto simp: Chat_Chat_def Let_def History_StoreMany_never_Error split: if_splits)
  then have m2: "History_StoreMany u1 (toolcalled ?co) = Inr u2"
    by (auto split: if_splits)
  have all: "History_StoreMany (history c) (turn_inputs message ?co) = Inr u2"
    unfolding turn_inputs_def History_StoreMany_append using m1 m2 by simp
  have "history c' = u2"
    using assms s1 s2
    by (auto simp: Chat_Chat_def Let_def split: if_splits prod.splits
        dest!: doStream_failure_keeps_chat do_error_keeps_chat)
  with all show ?thesis by simp
qed

lemma Chat_Chat_streaming:
  assumes "stream (Chat_options c opts)"
    and "History_StoreMany (history c) (turn_inputs message (Chat_options c opts)) = Inr u"
  shows "Chat_Chat b now c message opts s
         = (case doStream b (c\<lparr>history := u\<rparr>) (Chat_request (Chat_options c opts) u)
                   (writeFunc (Chat_options c opts)) s of
              (r, c3, s') \<Rightarrow> (r, c3\<lparr>lastMessage := now\<rparr>, s'))"
proof -
  let ?co = "Chat_options c opts"
  let ?um = "\<lparr> Role = ''user'', Content = Some message, ToolCallID = '''' \<rparr>"
  from assms(2) obtain u1 where
    m1: "History_StoreMany (history c) (if length message > 0 then [?um] else []) = Inr u1"
    and m2: "History_StoreMany u1 (toolcalled ?co) = Inr u"
    by (auto simp: turn_inputs_def History_StoreMany_append split: sum.splits)
  from m1 have s1:
    "(if length message > 0 then History_Store (history c) ?um else Inr (True, history c))
     = Inr (True, u1)"
    by (auto simp: History_Store_def split: if_splits)
  from m2 have s2:
    "(if length (toolcalled ?co) > 0 then History_StoreMany u1 (toolcalled ?co) else Inr u1)
     = Inr u"
    by (auto split: if_splits)
  show ?thesis
    using assms(1) s1 s2 m2
    by (auto simp: Chat_Chat_def Let_def split: prod.splits if_splits)
qed

lemma example_chat_ring: "data (history example_chat) = [None, None, None, None]"
  by (simp add: example_chat_def chat_New_def WithMaxHistory_def history_New_def ring_New_def
      eval_nat_numeral)

section \<open>The streaming assembler: reconstruction and failures\<close>

text \<open>
  Claim C5. When the stream is the two fragments
  \<open>{id:"a", name:"f", args:"{\"x\":"}\<close> and \<open>{id:"", args:"1}"}\<close>, \<open>doStream\<close> returns the
  map with the single entry \<open>"a"\<close>, whose call has id \<open>"a"\<close>, name \<open>"f"\<close> and
  arguments \<open>{"x":1}\<close> (history and write function untouched, as there is no text).
  In general: when the tool-call deltas of a stream that ends gracefully are one delta
  with a non-empty id followed by deltas with an empty id, spread over any number of
  fragments, and no write fails, the returned map is the single entry of that id, with
  the name of the first delta and the argument texts of all deltas concatenated in
  arrival order.
\<close>

theorem C5_streaming_reconstruction:
  \<open>(CreateChatCompletionStream b req
      = Inr [Inr [\<lparr> DeltaRole = r1, DeltaContent = '''',
                    DeltaToolCalls = [\<lparr> ID = ''a'',
                                        Function = \<lparr> Name = ''f'', Arguments = ''{"x":'' \<rparr>,
                                        Type = t1 \<rparr>] \<rparr>],
             Inr [\<lparr> DeltaRole = r2, DeltaContent = '''',
                    DeltaToolCalls = [\<lparr> ID = '''',
                                        Function = \<lparr> Name = n2, Arguments = ''1}'' \<rparr>,
                                        Type = t2 \<rparr>] \<rparr>]]
     \<longrightarrow> doStream b c req w s
         = (Inr [(''a'', \<lparr> ID = ''a'',
                           Function = \<lparr> Name = ''f'', Arguments = ''{"x":1}'' \<rparr>,
                           Type = t1 \<rparr>)], c, s))
   \<and> (CreateChatCompletionStream b req = Inr (map Inr cs)
      \<and> tool_deltas cs = tc # ds \<and> ID tc \<noteq> '''' \<and> (\<forall>d \<in> set ds. ID d = '''')
      \<and> (\<forall>s t. fst (w s t) = None) \<and> data (history c) \<noteq> []
     \<longrightarrow> fst (doStream b c req w s)
         = Inr [(ID tc, \<lparr> ID = ID tc,
                           Function = \<lparr> Name = Name (Function tc),
                                        Arguments = Arguments (Function tc)
                                          @ concat (map (\<lambda>d. Arguments (Function d)) ds) \<rparr>,
                           Type = Type tc \<rparr>)])\<close>
proof -
  let ?call = "\<lparr> ID = ID tc,
                  Function = \<lparr> Name = Name (Function tc),
                               Arguments = Arguments (Function tc)
                                 @ concat (map (\<lambda>d. Arguments (Function d)) ds) \<rparr>,
                  Type = Type tc \<rparr>"
  have general: "fst (doStream b c req w s) = Inr [(ID tc, ?call)]"
    if str: "CreateChatCompletionStream b req = Inr (map Inr cs)"
      and td: "tool_deltas cs = tc # ds"
      and open_id: "ID tc \<noteq> ''''"
      and cont: "\<forall>d \<in> set ds. ID d = ''''"
      and w: "\<forall>s t. fst (w s t) = None"
      and ring: "data (history c) \<noteq> []"
  proof -
    have "stream_tool_calls ([], '''') (tool_deltas cs) = Inr ([(ID tc, ?call)], ID tc)"
      using stream_tool_calls_open [of tc "[]" ds "''''"] open_id cont td by simp
    then obtain msg' s' where
      "stream_loop w (map Inr cs) ([], '''', '''') s = (Inr ([(ID tc, ?call)], ID tc, msg'), s')"
      using stream_loop_tool_deltas [OF w] by blast
    with str ring show ?thesis
      by (simp add: doStream_def History_Store_def)
  qed
  show ?thesis
    using general by (auto simp add: doStream_def)
qed

theorem C5_streaming_reconstruction_witness:
  \<open>doStream (stream_backend [Inr [call_delta ''a'' ''f'' ''{"x":''],
                              Inr [call_delta '''' '''' ''1}'']])
      example_chat example_request keep_writes []
    = (Inr [(''a'', \<lparr> ID = ''a'', Function = \<lparr> Name = ''f'', Arguments = ''{"x":1}'' \<rparr>,
                      Type = ''function'' \<rparr>)], example_chat, [])
   \<and> fst (doStream (stream_backend (map Inr [[call_delta ''b'' ''g'' ''[1,''],
                                             [text_delta ''Hi''],
                                             [call_delta '''' '''' ''2]'']]))
           example_chat example_request keep_writes [])
    = Inr [(''b'', \<lparr> ID = ''b'', Function = \<lparr> Name = ''g'', Arguments = ''[1,2]'' \<rparr>,
                     Type = ''function'' \<rparr>)]\<close>
proof -
  have 1: \<open>doStream (stream_backend [Inr [call_delta ''a'' ''f'' ''{"x":''],
                                      Inr [call_delta '''' '''' ''1}'']])
      example_chat example_request keep_writes []
    = (Inr [(''a'', \<lparr> ID = ''a'', Function = \<lparr> Name = ''f'', Arguments = ''{"x":1}'' \<rparr>,
                      Type = ''function'' \<rparr>)], example_chat, [])\<close>
    using C5_streaming_reconstruction
      [where b = \<open>stream_backend [Inr [call_delta ''a'' ''f'' ''{"x":''],
                                   Inr [call_delta '''' '''' ''1}'']]\<close>
         and req = example_request and ?r1.0 = "''assistant''" and ?r2.0 = "''assistant''"
         and ?t1.0 = "''function''" and ?t2.0 = "''function''" and ?n2.0 = "''''"
         and c = example_chat and w = keep_writes and s = "[]"]
    by (simp add: stream_backend_def call_delta_def)
  have 2: \<open>fst (doStream (stream_backend (map Inr [[call_delta ''b'' ''g'' ''[1,''],
                                                    [text_delta ''Hi''],
                                                    [call_delta '''' '''' ''2]'']]))
           example_chat example_request keep_writes [])
    = Inr [(''b'', \<lparr> ID = ''b'', Function = \<lparr> Name = ''g'', Arguments = ''[1,2]'' \<rparr>,
                     Type = ''function'' \<rparr>)]\<close>
    using C5_streaming_reconstruction
      [where b = \<open>stream_backend (map Inr [[call_delta ''b'' ''g'' ''[1,''],
                                            [text_delta ''Hi''],
                                            [call_delta '''' '''' ''2]'']])\<close>
         and req = example_request
         and cs = \<open>[[call_delta ''b'' ''g'' ''[1,''], [text_delta ''Hi''],
                    [call_delta '''' '''' ''2]'']]\<close>
         and tc = \<open>\<lparr> ID = ''b'', Function = \<lparr> Name = ''g'', Arguments = ''[1,'' \<rparr>,
                      Type = ''function'' \<rparr>\<close>
         and ds = \<open>[\<lparr> ID = '''', Function = \<lparr> Name = '''', Arguments = ''2]'' \<rparr>,
                       Type = ''function'' \<rparr>]\<close>
         and c = example_chat and w = keep_writes and s = "[]"]
    by (simp add: stream_backend_def call_delta_def text_delta_def keep_writes_def
        example_chat_ring)
  show ?thesis by (rule conjI [OF 1 2])
qed

text \<open>
  Claim C6. A streaming model call that fails leaves the session, and with it the
  history buffer, exactly as it was: whenever \<open>doStream\<close> ends in a failure the session
  it returns is the one it was given. It does return the error: an error of \<open>Recv\<close>
  other than \<open>io.EOF\<close>, and an error of the write function, each after any run of
  fragments received without failure, is the result of \<open>doStream\<close>, and so is the
  error of a request that fails before any fragment. The turn (\<open>Chat.Chat\<close>) in
  streaming mode returns what \<open>doStream\<close> returns, called on the session with the
  inputs of the turn appended; and after a turn that returned an error the history
  holds what it held before plus the inputs of the turn, and no assistant message.
  The assistant message is appended at the finalize of a stream that ended gracefully,
  and only there: nothing is appended when no text was collected, and otherwise one
  message with the whole text takes the place after the newest slot (the oldest slot
  is given up). With a write function that does not fail, the text is that of the
  fragments in arrival order.
\<close>

theorem C6_failed_stream_commits_nothing:
  "(doStream b c req w s = (Inl f, c', s') \<longrightarrow> c' = c)
   \<and> (CreateChatCompletionStream b req = Inr (map Inr cs @ Inl err # rest)
      \<and> err \<noteq> EOF
      \<and> stream_loop w (map Inr cs) ([], '''', '''') s = (Inr st, s1)
     \<longrightarrow> doStream b c req w s = (Inl (Error err), c, s1))
   \<and> (CreateChatCompletionStream b req = Inr (map Inr cs @ Inr (d # ds) # rest)
      \<and> stream_loop w (map Inr cs) ([], '''', '''') s = (Inr st, s1)
      \<and> DeltaRole d = ''assistant'' \<and> DeltaContent d \<noteq> ''''
      \<and> w s1 (DeltaContent d) = (Some err, s2)
     \<longrightarrow> doStream b c req w s = (Inl (Error err), c, s2))
   \<and> (stream (Chat_options c opts)
      \<and> History_StoreMany (history c) (turn_inputs message (Chat_options c opts)) = Inr u
     \<longrightarrow> Chat_Chat b now c message opts s
         = (case doStream b (c\<lparr>history := u\<rparr>) (Chat_request (Chat_options c opts) u)
                   (writeFunc (Chat_options c opts)) s of
              (r, c3, s3) \<Rightarrow> (r, c3\<lparr>lastMessage := now\<rparr>, s3)))
   \<and> (Chat_Chat b now c message opts s = (Inl (Error err), c', s')
     \<longrightarrow> History_StoreMany (history c) (turn_inputs message (Chat_options c opts))
         = Inr (history c'))
   \<and> (CreateChatCompletionStream b req = Inl err
     \<longrightarrow> doStream b c req w s = (Inl (Error err), c, s))
   \<and> (CreateChatCompletionStream b req = Inr items
      \<and> stream_loop w items ([], '''', '''') s = (Inr (m, cur, ''''), s1)
     \<longrightarrow> doStream b c req w s = (Inr m, c, s1))
   \<and> (CreateChatCompletionStream b req = Inr items
      \<and> stream_loop w items ([], '''', '''') s = (Inr (m, cur, msg), s1)
      \<and> msg \<noteq> '''' \<and> data (history c) \<noteq> []
     \<longrightarrow> doStream b c req w s
         = (Inr m,
            c\<lparr>history := (history c)
                 \<lparr>data := tl (data (history c))
                           @ [Some \<lparr> Role = ''assistant'', Content = Some msg,
                                     ToolCallID = '''' \<rparr>]\<rparr>\<rparr>,
            s1))
   \<and> (CreateChatCompletionStream b req = Inr (map Inr cs)
      \<and> (\<forall>s t. fst (w s t) = None)
      \<and> stream_tool_calls ([], '''') (tool_deltas cs) = Inr (m, cur)
      \<and> data (history c) \<noteq> []
     \<longrightarrow> (\<exists>s1. doStream b c req w s
              = (Inr m,
                 (if text_deltas cs = '''' then c
                  else c\<lparr>history := (history c)
                         \<lparr>data := tl (data (history c))
                                   @ [Some \<lparr> Role = ''assistant'',
                                             Content = Some (text_deltas cs),
                                             ToolCallID = '''' \<rparr>]\<rparr>\<rparr>),
                 s1)))"
proof -
  note failures =
    doStream_failure_keeps_chat [of b c req w s f c' s']
    doStream_transport_error [of b req cs err rest w s st s1 c]
    doStream_sink_error [of b req cs d ds rest w s st s1 err s2 c]
    doStream_request_error [of b req err c w s]
  note turn =
    Chat_Chat_streaming [of c opts message u b now s]
    Chat_Chat_error_history [of b now c message opts s err c' s']
  note finalize =
    doStream_finalize_empty [of b req items w s m cur s1 c]
    doStream_finalize_commit [of b req items w s m cur msg s1 c]
    doStream_graceful [of b req cs w m cur c s]
  show ?thesis
    by (intro conjI impI; (elim conjE)?; (rule failures turn finalize; assumption+)?)
qed

theorem C6_failed_stream_commits_nothing_witness:
  "doStream (stream_backend [Inr [text_delta ''Hel''], Inl (ErrMsg ''reset'')])
      example_chat example_request keep_writes []
    = (Inl (Error (ErrMsg ''reset'')), example_chat, [''Hel''])
   \<and> doStream (stream_backend [Inr [text_delta ''Hel''], Inr [text_delta ''lo'']])
        example_chat example_request one_write_only []
      = (Inl (Error (ErrMsg ''closed'')), example_chat, [''Hel''])
   \<and> Chat_Chat (stream_backend [Inr [text_delta ''Hel''], Inl (ErrMsg ''reset'')]) 7
        example_chat ''hi'' [WithStream True, WithWriteFunc keep_writes] []
      = (Inl (Error (ErrMsg ''reset'')),
         example_chat
           \<lparr>history := (history example_chat)
              \<lparr>data := [None, None, None,
                         Some \<lparr> Role = ''user'', Content = Some ''hi'', ToolCallID = '''' \<rparr>]\<rparr>,
            lastMessage := 7\<rparr>,
         [''Hel''])
   \<and> History_Slice
        (history (fst (snd (Chat_Chat
           (stream_backend [Inr [text_delta ''Hel''], Inl (ErrMsg ''reset'')]) 7
           example_chat ''hi'' [WithStream True, WithWriteFunc keep_writes] []))))
      = [\<lparr> Role = ''user'', Content = Some ''hi'', ToolCallID = '''' \<rparr>]
   \<and> doStream refusing_backend example_chat example_request keep_writes []
      = (Inl (Error (ErrMsg ''connection refused'')), example_chat, [])
   \<and> Chat_Chat refusing_backend 7
        example_chat ''hi'' [WithStream True, WithWriteFunc keep_writes] []
      = (Inl (Error (ErrMsg ''connection refused'')),
         example_chat
           \<lparr>history := (history example_chat)
              \<lparr>data := [None, None, None,
                         Some \<lparr> Role = ''user'', Content = Some ''hi'', ToolCallID = '''' \<rparr>]\<rparr>,
            lastMessage := 7\<rparr>,
         [])
   \<and> doStream (stream_backend [Inr [call_delta ''a'' ''f'' ''{}'']])
        example_chat example_request keep_writes []
      = (Inr [(''a'', example_call ''a'' ''f'')], example_chat, [])
   \<and> doStream (stream_backend [Inr [text_delta ''Hel''], Inr [text_delta ''lo'']])
        example_chat example_request keep_writes []
      = (Inr [],
         example_chat
           \<lparr>history := (history example_chat)
              \<lparr>data := [None, None, None,
                         Some \<lparr> Role = ''assistant'', Content = Some ''Hello'',
                                 ToolCallID = '''' \<rparr>]\<rparr>\<rparr>,
         [''Hel'', ''lo''])
   \<and> (\<exists>s1. doStream (stream_backend (map Inr [[text_delta ''Hel''], [text_delta ''lo'']]))
               example_chat example_request keep_writes []
             = (Inr [],
                example_chat
                  \<lparr>history := (history example_chat)
                     \<lparr>data := [None, None, None,
                                Some \<lparr> Role = ''assistant'', Content = Some ''Hello'',
                                        ToolCallID = '''' \<rparr>]\<rparr>\<rparr>,
                s1))"
proof -
  let ?b = "stream_backend [Inr [text_delta ''Hel''], Inl (ErrMsg ''reset'')]"
  let ?b2 = "stream_backend [Inr [text_delta ''Hel''], Inr [text_delta ''lo'']]"
  let ?b3 = "stream_backend [Inr [call_delta ''a'' ''f'' ''{}'']]"
  let ?opts = "[WithStream True, WithWriteFunc keep_writes]
                 :: (string list chat_Opt \<Rightarrow> string list chat_Opt) list"
  let ?co = "Chat_options example_chat ?opts"
  let ?u = "(history example_chat)
              \<lparr>data := [None, None, None,
                         Some \<lparr> Role = ''user'', Content = Some ''hi'', ToolCallID = '''' \<rparr>]\<rparr>"
  have transport: "doStream ?b c req keep_writes []
           = (Inl (Error (ErrMsg ''reset'')), c, [''Hel''])" for c req
    using C6_failed_stream_commits_nothing
      [where b = ?b and req = req and cs = "[[text_delta ''Hel'']]"
         and err = "ErrMsg ''reset''" and rest = "[]" and w = keep_writes and s = "[]"
         and st = "([], '''', ''Hel'')" and ?s1.0 = "[''Hel'']" and c = c,
       THEN conjunct2, THEN conjunct1]
    by (simp add: stream_backend_def text_delta_def keep_writes_def)
  have t1: "doStream ?b example_chat example_request keep_writes []
           = (Inl (Error (ErrMsg ''reset'')), example_chat, [''Hel''])"
    by (rule transport)
  have t2: "doStream ?b2 example_chat example_request one_write_only []
           = (Inl (Error (ErrMsg ''closed'')), example_chat, [''Hel''])"
    using C6_failed_stream_commits_nothing
      [where b = ?b2 and req = example_request and cs = "[[text_delta ''Hel'']]"
         and d = "text_delta ''lo''" and ds = "[]"
         and err = "ErrMsg ''closed''" and rest = "[]" and w = one_write_only and s = "[]"
         and st = "([], '''', ''Hel'')" and ?s1.0 = "[''Hel'']" and ?s2.0 = "[''Hel'']"
         and c = example_chat,
       THEN conjunct2, THEN conjunct2, THEN conjunct1]
    by (simp add: stream_backend_def text_delta_def one_write_only_def)
  have co: "stream ?co" "writeFunc ?co = keep_writes"
    by (simp_all add: Chat_options_def WithStream_def WithWriteFunc_def)
  have inputs: "History_StoreMany (history example_chat) (turn_inputs ''hi'' ?co) = Inr ?u"
    by (simp add: turn_inputs_def Chat_options_def WithStream_def WithWriteFunc_def
        example_chat_ring ring_Next_def)
  have turn: "Chat_Chat b 7 example_chat ''hi'' ?opts []
         = (case doStream b (example_chat\<lparr>history := ?u\<rparr>) (Chat_request ?co ?u)
                   (writeFunc ?co) [] of
              (r, c3, s3) \<Rightarrow> (r, c3\<lparr>lastMessage := 7\<rparr>, s3))" for b
    using C6_failed_stream_commits_nothing
      [where b = b and now = 7 and c = example_chat and message = "''hi''" and opts = ?opts
         and s = "[]" and u = ?u,
       THEN conjunct2, THEN conjunct2, THEN conjunct2, THEN conjunct1]
      co(1) inputs
    by blast
  have t3: "Chat_Chat ?b 7 example_chat ''hi'' ?opts []
           = (Inl (Error (ErrMsg ''reset'')), example_chat\<lparr>history := ?u, lastMessage := 7\<rparr>,
              [''Hel''])"
    unfolding turn co(2) transport by simp
  have "History_StoreMany (history example_chat) (turn_inputs ''hi'' ?co)
        = Inr (history (example_chat\<lparr>history := ?u, lastMessage := 7\<rparr>))"
    using C6_failed_stream_commits_nothing
      [where b = ?b and now = 7 and c = example_chat and message = "''hi''" and opts = ?opts
         and s = "[]" and err = "ErrMsg ''reset''"
         and c' = "example_chat\<lparr>history := ?u, lastMessage := 7\<rparr>" and s' = "[''Hel'']",
       THEN conjunct2, THEN conjunct2, THEN conjunct2, THEN conjunct2, THEN conjunct1]
      t3
    by blast
  have t4: "History_Slice (history (fst (snd (Chat_Chat ?b 7 example_chat ''hi'' ?opts []))))
          = [\<lparr> Role = ''user'', Content = Some ''hi'', ToolCallID = '''' \<rparr>]"
    unfolding t3 by (simp add: History_Slice_filter)
  have refused: "doStream refusing_backend c req keep_writes []
           = (Inl (Error (ErrMsg ''connection refused'')), c, [])" for c req
    using C6_failed_stream_commits_nothing
      [where b = refusing_backend and req = req and err = "ErrMsg ''connection refused''"
         and w = keep_writes and s = "[]" and c = c,
       THEN conjunct2, THEN conjunct2, THEN conjunct2, THEN conjunct2, THEN conjunct2,
       THEN conjunct1]
    by (simp add: refusing_backend_def)
  have t5: "doStream refusing_backend example_chat example_request keep_writes []
           = (Inl (Error (ErrMsg ''connection refused'')), example_chat, [])"
    by (rule refused)
  have t6: "Chat_Chat refusing_backend 7 example_chat ''hi'' ?opts []
           = (Inl (Error (ErrMsg ''connection refused'')),
              example_chat\<lparr>history := ?u, lastMessage := 7\<rparr>, [])"
    unfolding turn co(2) refused by simp
  have t7: "doStream ?b3 example_chat example_request keep_writes []
           = (Inr [(''a'', example_call ''a'' ''f'')], example_chat, [])"
    using C6_failed_stream_commits_nothing
      [where b = ?b3 and req = example_request
         and items = "[Inr [call_delta ''a'' ''f'' ''{}'']]"
         and w = keep_writes and s = "[]" and m = "[(''a'', example_call ''a'' ''f'')]"
         and cur = "''a''" and ?s1.0 = "[]" and c = example_chat,
       THEN conjunct2, THEN conjunct2, THEN conjunct2, THEN conjunct2, THEN conjunct2,
       THEN conjunct2, THEN conjunct1]
    by (simp add: stream_backend_def call_delta_def example_call_def)
  have t8: "doStream ?b2 example_chat example_request keep_writes []
           = (Inr [],
              example_chat
                \<lparr>history := (history example_chat)
                   \<lparr>data := [None, None, None,
                              Some \<lparr> Role = ''assistant'', Content = Some ''Hello'',
                                      ToolCallID = '''' \<rparr>]\<rparr>\<rparr>,
              [''Hel'', ''lo''])"
    using C6_failed_stream_commits_nothing
      [where b = ?b2 and req = example_request
         and items = "[Inr [text_delta ''Hel''], Inr [text_delta ''lo'']]"
         and w = keep_writes and s = "[]" and m = "[]" and cur = "''''" and msg = "''Hello''"
         and ?s1.0 = "[''Hel'', ''lo'']" and c = example_chat,
       THEN conjunct2, THEN conjunct2, THEN conjunct2, THEN conjunct2, THEN conjunct2,
       THEN conjunct2, THEN conjunct2, THEN conjunct1]
    by (simp add: stream_backend_def text_delta_def keep_writes_def example_chat_ring)
  have t9: "\<exists>s1. doStream (stream_backend (map Inr [[text_delta ''Hel''], [text_delta ''lo'']]))
               example_chat example_request keep_writes []
             = (Inr [],
                example_chat
                  \<lparr>history := (history example_chat)
                     \<lparr>data := [None, None, None,
                                Some \<lparr> Role = ''assistant'', Content = Some ''Hello'',
                                        ToolCallID = '''' \<rparr>]\<rparr>\<rparr>,
                s1)"
    using C6_failed_stream_commits_nothing
      [where b = "stream_backend (map Inr [[text_delta ''Hel''], [text_delta ''lo'']])"
         and req = example_request
         and cs = "[[text_delta ''Hel''], [text_delta ''lo'']]"
         and w = keep_writes and s = "[]" and m = "[]" and cur = "''''" and c = example_chat,
       THEN conjunct2, THEN conjunct2, THEN conjunct2, THEN conjunct2, THEN conjunct2,
       THEN conjunct2, THEN conjunct2, THEN conjunct2]
    by (simp add: stream_backend_def text_delta_def keep_writes_def example_chat_ring)
  from t1 t2 t3 t4 t5 t6 t7 t8 t9 show ?thesis
    by (intro conjI)
qed

text \<open>
  Claim C9. When the first tool-call delta of a stream carries an empty id (the
  fragments before it carry no tool call, and no write fails), \<open>doStream\<close> does not
  return an error: the entry for the empty current id is missing, the assignment to its
  arguments dereferences the nil pointer, and the call ends in that panic.
\<close>

theorem C9_empty_id_first_panics:
  assumes "CreateChatCompletionStream b req = Inr (map Inr cs @ Inr (d # ds) # rest)"
    and "no_tool_calls cs"
    and "DeltaToolCalls d = tc # tcs" and "ID tc = ''''"
    and "\<forall>s t. fst (w s t) = None"
  shows "\<exists>s'. doStream b c req w s = (Inl (Panic NilDeref), c, s')"
proof -
  obtain msg' s' where pre:
    "stream_loop w (map Inr cs) ([], '''', '''') s = (Inr ([], '''', msg'), s')"
    using stream_loop_no_tool_calls [OF assms(2,5)] by blast
  obtain e s1 where w: "w s' (DeltaContent d) = (e, s1)"
    by (cases "w s' (DeltaContent d)")
  with assms(5) have e: "e = None" by (metis fst_conv)
  have "\<exists>s2. stream_loop w (map Inr cs @ Inr (d # ds) # rest) ([], '''', '''') s
        = (Inl (Panic NilDeref), s2)"
    using stream_loop_chunks_append [OF pre] assms(3,4) w e by simp
  then show ?thesis using assms(1) by (auto simp add: doStream_def)
qed

theorem C9_empty_id_first_panics_witness:
  "\<exists>s'. doStream (stream_backend [Inr [text_delta ''Hi''], Inr [call_delta '''' ''f'' ''{}'']])
           example_chat example_request keep_writes []
         = (Inl (Panic NilDeref), example_chat, s')"
  using C9_empty_id_first_panics
    [where b = "stream_backend [Inr [text_delta ''Hi''], Inr [call_delta '''' ''f'' ''{}'']]"
       and req = example_request and cs = "[[text_delta ''Hi'']]"
       and d = "call_delta '''' ''f'' ''{}''" and ds = "[]" and rest = "[]"
       and tc = "\<lparr> ID = '''', Function = \<lparr> Name = ''f'', Arguments = ''{}'' \<rparr>,
                    Type = ''function'' \<rparr>"
       and tcs = "[]" and w = keep_writes and c = example_chat and s = "[]"]
  by (simp add: stream_backend_def text_delta_def call_delta_def keep_writes_def)

section \<open>Properties of the storages and of the restore\<close>

lemma history_chat_New:
  "history (chat_New k mn [WithAPIKey ak, WithMaxHistory C]) = history_New C"
  by (simp add: chat_New_def WithAPIKey_def WithMaxHistory_def)

lemma restore_session_length:
  assumes "Storage_Load j st key = Inr msgs"
    and "snd (restore_session j st key mn ak C) = Inr ch"
  shows "length (Chat_History ch) \<le> length msgs"
proof (cases "msgs = []")
  case True
  with assms show ?thesis
    by (auto simp: restore_session_def Let_def Chat_History_def history_chat_New history_New_Slice)
next
  case False
  with assms have sh: "Chat_SetHistory (chat_New key mn [WithAPIKey ak, WithMaxHistory C]) msgs = Inr ch"
    by (simp add: restore_session_def Let_def)
  then have sm: "History_StoreMany (history_New C) msgs = Inr (history ch)"
    by (auto simp: Chat_SetHistory_def history_chat_New split: sum.splits)
  have "1 \<le> C"
  proof (rule ccontr)
    assume "\<not> 1 \<le> C"
    then have "data (history_New C :: Message History) = []"
      by (simp add: history_New_def ring_New_def)
    with sm False show False by (cases msgs) simp_all
  qed
  from history_New_StoreMany [OF this, of msgs] sm
  show ?thesis by (auto simp: Chat_History_def)
qed

lemma FileStorage_Load_single:
  "\<exists>msgs. FileStorage_Load j (snd (FileStorage_Store j [] key h)) key' = Inr msgs \<and> length msgs \<le> 1"
  by (auto simp: FileStorage_Load_def FileStorage_Store_def BoltDB_Write_def split: sum.splits)

lemma FileStorage_Load_ignores_chatid:
  "FileStorage_Load j db key = FileStorage_Load j db key'"
  by (simp add: FileStorage_Load_def)

lemma restore_session_loaded:
  assumes "Storage_Load j st key = Inr msgs" and "1 \<le> C"
  shows "\<exists>ch. restore_session j st key mn ak C = (None, Inr ch)
            \<and> Chat_History ch = drop (length msgs - nat C) msgs"
proof -
  obtain u where u: "History_StoreMany (history_New C) msgs = Inr u"
    and sl: "History_Slice u = drop (length msgs - nat C) msgs"
    using history_New_StoreMany [OF assms(2), of msgs] by blast
  show ?thesis
  proof (cases "msgs = []")
    case True
    then show ?thesis using assms(1)
      by (simp add: restore_session_def Chat_History_def history_chat_New history_New_Slice)
  next
    case False
    then show ?thesis using assms(1) u sl
      by (simp add: restore_session_def Chat_SetHistory_def Chat_History_def history_chat_New)
  qed
qed

text \<open>
  The in-memory storage, and the Redis storage with a codec that reads back what it
  wrote, do round-trip: the restored snapshot is the stored list cut to its last
  \<open>C\<close> messages.
\<close>

lemma MemoryStorage_round_trip:
  assumes "1 \<le> C"
  shows "\<exists>ch. restore_session j (Memory (snd (MemoryStorage_Store s key h))) key mn ak C
              = (None, Inr ch)
            \<and> Chat_History ch = drop (length h - nat C) h"
proof -
  have "Storage_Load j (Memory (snd (MemoryStorage_Store s key h))) key = Inr h"
    by (simp add: MemoryStorage_Store_def MemoryStorage_Load_def Let_def)
  from restore_session_loaded [OF this assms] show ?thesis .
qed

lemma RedisStorage_round_trip:
  assumes "1 \<le> C" and "Marshal j h = Inr txt" and "UnmarshalMessages j txt = Inr h"
  shows "\<exists>ch. restore_session j (Redis (snd (RedisStorage_Store j db key h))) key mn ak C
              = (None, Inr ch)
            \<and> Chat_History ch = drop (length h - nat C) h"
proof -
  have "Storage_Load j (Redis (snd (RedisStorage_Store j db key h))) key = Inr h"
    using assms(2,3) by (simp add: RedisStorage_Store_def RedisStorage_Load_def)
  from restore_session_loaded [OF this assms(1)] show ?thesis .
qed

lemma FileStorage_example:
  "FileStorage_Load example_codec
                (snd (FileStorage_Store example_codec [] ''k''
                        [example_message ''user'' ''hi'', example_message ''assistant'' ''hello'']))
                ''k'' = Inr []"
  by (simp add: FileStorage_Load_def FileStorage_Store_def BoltDB_Write_def example_codec_def)

section \<open>The storages: store, then load on a fresh session\<close>

text \<open>
  Claim C4 (not met by the code). \<open>FileStorage.Load\<close> does not read back what
  \<open>FileStorage.Store\<close> wrote: \<open>Store\<close> writes the whole list as one JSON value under
  the key, \<open>Load\<close> ignores the key and decodes every stored value as a single message.
  After storing two messages \<open>[a, b]\<close> under a key of an empty database, \<open>Load\<close>
  of that key returns at most one message, whatever the JSON library does, so the
  session restored with a capacity of two or more has a snapshot that is not \<open>[a, b]\<close>.
\<close>

theorem C4_FileStorage_no_round_trip:
  assumes "2 \<le> C"
  shows "\<exists>msgs ch. FileStorage_Load j (snd (FileStorage_Store j [] key [a, b])) key = Inr msgs
           \<and> length msgs \<le> 1
           \<and> restore_session j (File (snd (FileStorage_Store j [] key [a, b]))) key mn ak C
               = (None, Inr ch)
           \<and> Chat_History ch = msgs
           \<and> Chat_History ch \<noteq> [a, b]"
proof -
  obtain msgs where l: "FileStorage_Load j (snd (FileStorage_Store j [] key [a, b])) key = Inr msgs"
    and n: "length msgs \<le> 1"
    using FileStorage_Load_single by blast
  from assms have c: "1 \<le> C" by simp
  have "Storage_Load j (File (snd (FileStorage_Store j [] key [a, b]))) key = Inr msgs"
    using l by simp
  from restore_session_loaded [OF this c, of mn ak]
  obtain ch where r: "restore_session j (File (snd (FileStorage_Store j [] key [a, b]))) key mn ak C
               = (None, Inr ch)"
    and h: "Chat_History ch = drop (length msgs - nat C) msgs"
    by blast
  from n assms have "drop (length msgs - nat C) msgs = msgs" by simp
  with h have "Chat_History ch = msgs" by simp
  moreover from this n have "Chat_History ch \<noteq> [a, b]" by auto
  ultimately show ?thesis using l n r by blast
qed

theorem C4_FileStorage_no_round_trip_witness:
  "(2::int) \<le> 500 \<and>
   (\<exists>msgs ch. FileStorage_Load example_codec
                (snd (FileStorage_Store example_codec [] ''k''
                        [example_message ''user'' ''hi'', example_message ''assistant'' ''hello'']))
                ''k'' = Inr msgs
           \<and> length msgs \<le> 1
           \<and> restore_session example_codec
                (File (snd (FileStorage_Store example_codec [] ''k''
                        [example_message ''user'' ''hi'', example_message ''assistant'' ''hello''])))
                ''k'' ''qwen3:8b'' ''your_api_key'' 500
               = (None, Inr ch)
           \<and> Chat_History ch = msgs
           \<and> Chat_History ch
               \<noteq> [example_message ''user'' ''hi'', example_message ''assistant'' ''hello''])"
  using C4_FileStorage_no_round_trip [of 500 example_codec "''k''"
      "example_message ''user'' ''hi''" "example_message ''assistant'' ''hello''"
      "''qwen3:8b''" "''your_api_key''"]
  by simp

section \<open>Properties of the tool client and of the registry\<close>

lemma deref_simps [simp]:
  "deref None = Inl (Panic NilDeref)" "deref (Some v) = Inr v"
  by (simp_all add: deref_def)

lemma tool_dispatch_panic:
  assumes "McpClient_Call env m v [WithTimeout (60 * Second)] = Inl (Panic p)"
    and "v \<in> set vs"
  shows "fst (tool_dispatch env m wg vs) \<noteq> None"
  using assms(2)
proof (induction vs arbitrary: wg)
  case Nil
  then show ?case by simp
next
  case (Cons x xs)
  show ?case
  proof (cases "x = v")
    case True
    then show ?thesis using assms(1) by simp
  next
    case False
    with Cons have "fst (tool_dispatch env m (wg + 1 - 1) xs) \<noteq> None" by simp
    then show ?thesis
      by (auto split: sum.splits failure.splits prod.splits)
  qed
qed

text \<open>A call that returns an error adds a log line and no message; the others are run.\<close>

lemma tool_dispatch_error:
  assumes "McpClient_Call env m v [WithTimeout (60 * Second)] = Inl (Error err)"
    and "tool_dispatch env m wg vs = (p, msgs, logs, wg')"
  shows "tool_dispatch env m wg (v # vs)
         = (p, msgs,
            LogError (''mcp call '' @ Name (Function v) @ '' error: '' @ error_text err) # logs,
            wg')"
  using assms by simp

lemma tool_dispatch_example:
  "tool_dispatch example_env example_client 3
     [example_call ''1'' ''known'', example_call ''2'' ''fail'', example_call ''3'' ''known'']
   = (None,
      [\<lparr> Role = ''tool'', Content = Some ''result of known'', ToolCallID = ''1'' \<rparr>,
       \<lparr> Role = ''tool'', Content = Some ''result of known'', ToolCallID = ''3'' \<rparr>],
      [LogError ''mcp call fail error: tool failed''],
      3)"
  by (simp add: example_env_def example_client_def example_call_def McpClient_Call_def
      WithTimeout_def)

text \<open>
  When no call panics every goroutine takes off the one that its \<open>wg.Go\<close> added, and
  the counter is left where \<open>wg.Add(l)\<close> put it: the wait after a dispatch of one or
  more calls does not return.
\<close>

lemma tool_dispatch_counter:
  "tool_dispatch env m wg vs = (None, msgs, logs, wg') \<Longrightarrow> wg' = wg"
proof (induction vs arbitrary: wg msgs logs)
  case Nil
  then show ?case by simp
next
  case (Cons v vs)
  then show ?case
    by (auto split: sum.splits failure.splits prod.splits)
qed

lemma ChatsManager_Chat_blocks:
  assumes ses: "ChatsManager_session env j cm i = (Inr (ch, key, created), cm0)"
    and turn: "Chat_Chat b now1 ch message
                 [WithTools (McpClient_Tools (mcpCli cm0)), WithWriteFunc w,
                  WithStream (McpClient_ToolCount (mcpCli cm0) = 0)] s
               = (Inr toolcall, ch1, s1)"
    and ne: "toolcall \<noteq> []"
    and calm: "fst (tool_dispatch env (mcpCli cm0) (int (length toolcall)) (map snd toolcall))
               = None"
  shows "fst (ChatsManager_Chat env j b now1 now2 cm i message w s) = Blocks"
proof -
  obtain msgs logs wg where
    d: "tool_dispatch env (mcpCli cm0) (int (length toolcall)) (map snd toolcall)
        = (None, msgs, logs, wg)"
    using calm
    by (cases "tool_dispatch env (mcpCli cm0) (int (length toolcall)) (map snd toolcall)") auto
  from tool_dispatch_counter [OF d] ne have "wg \<noteq> 0" by simp
  then show ?thesis
    using ses turn ne d by (simp add: ChatsManager_Chat_def Let_def)
qed

lemma ChatsManager_session_miss:
  assumes "chats cm (GetSHA1 env i) = None"
    and "ChatsManager_session env j cm i = (Inr (ch, key, created), cm0)"
  shows "key = i \<and> created \<and> chats cm0 = (chats cm)(i \<mapsto> ch)"
  using assms
  by (auto simp: ChatsManager_session_def Let_def split: prod.splits sum.splits option.splits)

lemma ChatsManager_session_failure:
  assumes "ChatsManager_session env j cm i = (Inl f, cm0)"
  shows "chats cm0 = chats cm"
  using assms
  by (auto simp: ChatsManager_session_def Let_def split: prod.splits sum.splits option.splits)

lemma ChatsManager_Chat_chats:
  assumes "ChatsManager_session env j cm i = (Inr (ch, key, created), cm0)"
  shows "\<exists>ch'. chats (fst (snd (ChatsManager_Chat env j b n1 n2 cm i message w s)))
               = (chats cm0)(key \<mapsto> ch')"
  using assms
  apply (simp add: ChatsManager_Chat_def Let_def
      split: prod.splits sum.splits failure.splits option.splits)
  apply (intro conjI allI impI)
  apply auto
  done

lemma ChatsManager_Chat_failure:
  assumes "ChatsManager_session env j cm i = (Inl f, cm0)"
  shows "fst (snd (ChatsManager_Chat env j b n1 n2 cm i message w s)) = cm0"
  using assms
  by (simp add: ChatsManager_Chat_def split: failure.splits)

lemma ChatsManager_session_cnf:
  "cnf (snd (ChatsManager_session env j cm i)) = cnf cm"
  by (auto simp: ChatsManager_session_def Let_def split: prod.splits sum.splits option.splits)

lemma ChatsManager_Chat_cnf:
  "cnf (fst (snd (ChatsManager_Chat env j b n1 n2 cm i message w s))) = cnf cm"
proof -
  obtain r cm0 where ses: "ChatsManager_session env j cm i = (r, cm0)"
    by (cases "ChatsManager_session env j cm i")
  then have c0: "cnf cm0 = cnf cm"
    using ChatsManager_session_cnf [of env j cm i] by simp
  show ?thesis
    using ses c0
    by (simp add: ChatsManager_Chat_def Let_def
        split: prod.splits sum.splits failure.splits option.splits)
qed

lemma ChatsManager_Chat_dispatch_panic:
  assumes ses: "ChatsManager_session env j cm i = (Inr (ch, key, created), cm0)"
    and turn: "Chat_Chat b now1 ch message
                 [WithTools (McpClient_Tools (mcpCli cm0)), WithWriteFunc w,
                  WithStream (McpClient_ToolCount (mcpCli cm0) = 0)] s
               = (Inr toolcall, ch1, s1)"
    and call: "McpClient_Call env (mcpCli cm0) v [WithTimeout (60 * Second)] = Inl (Panic p)"
    and mem: "v \<in> set (map snd toolcall)"
  shows "\<exists>q. fst (ChatsManager_Chat env j b now1 now2 cm i message w s) = Panics q"
proof -
  have ne: "toolcall \<noteq> []" using mem by auto
  have "fst (tool_dispatch env (mcpCli cm0) (int (length toolcall)) (map snd toolcall)) \<noteq> None"
    using tool_dispatch_panic [OF call mem] .
  then obtain q msgs logs wg where
    d: "tool_dispatch env (mcpCli cm0) (int (length toolcall)) (map snd toolcall)
        = (Some q, msgs, logs, wg)"
    by (cases "tool_dispatch env (mcpCli cm0) (int (length toolcall)) (map snd toolcall)") auto
  show ?thesis
    using ses turn ne d by (simp add: ChatsManager_Chat_def Let_def)
qed

section \<open>The tool client and the dispatch\<close>

text \<open>
  Claim C10. \<open>New\<close> leaves the routing index \<open>idx\<close> nil. On the client it returns,
  \<open>AddTools\<close> with any non-empty URI ends in a nil-pointer panic and registers nothing:
  the lookup of the client misses and \<open>loadTools\<close> dereferences the nil pointer it got.
  And on any client whose \<open>idx\<close> is nil the registration of a first listed tool is
  a write to a nil map.
\<close>

theorem C10_first_AddTools_panics:
  "idx mcpcli_New = None
   \<and> (mcpUri \<noteq> ''''
      \<longrightarrow> McpClient_AddTools env mcpcli_New mcpUri = (Some (Panic NilDeref), mcpcli_New))
   \<and> (idx m = None \<and> listed \<noteq> []
      \<longrightarrow> loadTools_register env clikey m listed = (Some NilMapWrite, m))"
proof (intro conjI impI)
  show "idx mcpcli_New = None"
    by (simp add: mcpcli_New_def)
  show "McpClient_AddTools env mcpcli_New mcpUri = (Some (Panic NilDeref), mcpcli_New)"
    if "mcpUri \<noteq> ''''"
    using that
    by (simp add: McpClient_AddTools_def McpClient_loadTools_def loadTools_connect_def
        mcpcli_New_def Let_def)
  show "loadTools_register env clikey m listed = (Some NilMapWrite, m)"
    if "idx m = None \<and> listed \<noteq> []"
    using that by (cases listed) simp_all
qed

theorem C10_first_AddTools_panics_witness:
  "McpClient_AddTools example_env mcpcli_New ''http://127.0.0.1:8080/sse''
     = (Some (Panic NilDeref), mcpcli_New)
   \<and> loadTools_register example_env ''sha1-u'' mcpcli_New
        [\<lparr> McpName = ''known'', McpDescription = ''a tool'', McpProperties = ''{}'' \<rparr>]
     = (Some NilMapWrite, mcpcli_New)"
  using C10_first_AddTools_panics
    [of "''http://127.0.0.1:8080/sse''" example_env mcpcli_New
       "[\<lparr> McpName = ''known'', McpDescription = ''a tool'', McpProperties = ''{}'' \<rparr>]"
       "''sha1-u''"]
  by simp

text \<open>
  Claim C3 (not met by the code for an unknown tool name). A tool call whose arguments
  parse and whose name is not in the index is not handled: \<open>Call\<close> looks up
  \<open>m.clis[""]\<close>, gets the nil pointer and reads \<open>.cli\<close> through it, and since the
  goroutine of the dispatcher recovers nothing, a dispatch that contains such a call ends
  in the panic, and so does the \<open>ChatsManager.Chat\<close> whose first turn returned the
  call. (A call that returns an error is logged and adds no message, but the dispatcher
  does not return after it either: the counter of the wait group never comes back to
  zero.)
\<close>

theorem C3_unknown_tool_panics:
  assumes "UnmarshalFromString env (Arguments (Function tc)) = Inr arg"
    and "(case idx m of None \<Rightarrow> None | Some ix \<Rightarrow> ix (Name (Function tc))) = None"
    and "clis m '''' = None"
    and "tc \<in> set calls"
  shows "McpClient_Call env m tc opts = Inl (Panic NilDeref)
         \<and> fst (tool_dispatch env m wg calls) \<noteq> None
         \<and> (ChatsManager_session env j cm i = (Inr (ch, key, created), cm0)
            \<and> mcpCli cm0 = m
            \<and> Chat_Chat b now1 ch message
                 [WithTools (McpClient_Tools (mcpCli cm0)), WithWriteFunc w,
                  WithStream (McpClient_ToolCount (mcpCli cm0) = 0)] s
               = (Inr toolcall, ch1, s1)
            \<and> map snd toolcall = calls
            \<longrightarrow> (\<exists>p. fst (ChatsManager_Chat env j b now1 now2 cm i message w s) = Panics p))"
proof -
  have call: "McpClient_Call env m tc opts = Inl (Panic NilDeref)" for opts
    using assms(1,2,3) by (auto simp: McpClient_Call_def Let_def split: option.splits)
  have chat: "\<exists>p. fst (ChatsManager_Chat env j b now1 now2 cm i message w s) = Panics p"
    if "ChatsManager_session env j cm i = (Inr (ch, key, created), cm0)"
      and "mcpCli cm0 = m"
      and "Chat_Chat b now1 ch message
                 [WithTools (McpClient_Tools (mcpCli cm0)), WithWriteFunc w,
                  WithStream (McpClient_ToolCount (mcpCli cm0) = 0)] s
               = (Inr toolcall, ch1, s1)"
      and "map snd toolcall = calls"
  proof -
    have c: "McpClient_Call env (mcpCli cm0) tc [WithTimeout (60 * Second)]
             = Inl (Panic NilDeref)"
      using call that(2) by simp
    have v: "tc \<in> set (map snd toolcall)"
      using that(4) assms(4) by simp
    show ?thesis
      by (rule ChatsManager_Chat_dispatch_panic [OF that(1) that(3) c v])
  qed
  from tool_dispatch_panic [OF call assms(4)] call chat show ?thesis by blast
qed

theorem C3_unknown_tool_panics_witness:
  "McpClient_Call example_env example_client (example_call ''2'' ''nope'')
      [WithTimeout (60 * Second)] = Inl (Panic NilDeref)
   \<and> fst (tool_dispatch example_env example_client 3
            [example_call ''1'' ''known'', example_call ''2'' ''nope'',
             example_call ''3'' ''known'']) \<noteq> None
   \<and> (\<exists>p. fst (ChatsManager_Chat example_env example_codec
                 (stream_backend [Inr [call_delta ''2'' ''nope'' ''{}'']]) 1 2
                 (NewChatsManager []) ''user-123'' ''hello'' keep_writes []) = Panics p)"
proof -
  note inst = C3_unknown_tool_panics
      [where env = example_env and tc = "example_call ''2'' ''nope''" and arg = "''{}''"
         and m = example_client
         and calls = "[example_call ''1'' ''known'', example_call ''2'' ''nope'',
                       example_call ''3'' ''known'']"
         and opts = "[WithTimeout (60 * Second)]" and wg = 3]
  have t1: "McpClient_Call example_env example_client (example_call ''2'' ''nope'')
      [WithTimeout (60 * Second)] = Inl (Panic NilDeref)"
    using inst [THEN conjunct1]
    by (simp add: example_env_def example_client_def example_call_def)
  have t2: "fst (tool_dispatch example_env example_client 3
            [example_call ''1'' ''known'', example_call ''2'' ''nope'',
             example_call ''3'' ''known'']) \<noteq> None"
    using inst [THEN conjunct2, THEN conjunct1]
    by (simp add: example_env_def example_client_def example_call_def)
  let ?b = "stream_backend [Inr [call_delta ''2'' ''nope'' ''{}'']]"
  let ?cm = "NewChatsManager []"
  let ?ch = "chat_New (GetSHA1 example_env ''user-123'') ''qwen3:8b''
               [WithAPIKey ''your_api_key'', WithMaxHistory 500]"
  let ?stored = "?cm\<lparr>chats := (chats ?cm)(''user-123'' \<mapsto> ?ch)\<rparr>"
  let ?turn = "Chat_Chat ?b 1 ?ch ''hello''
                 [WithTools (McpClient_Tools (mcpCli ?stored)), WithWriteFunc keep_writes,
                  WithStream (McpClient_ToolCount (mcpCli ?stored) = 0)] []"
  have ses: "ChatsManager_session example_env example_codec ?cm ''user-123''
             = (Inr (?ch, ''user-123'', True), ?stored)"
    by (simp add: ChatsManager_session_def restore_session_def NewChatsManager_def Let_def
        NewMemoryStorage_def MemoryStorage_Load_def example_env_def)
  have cli: "mcpCli ?stored = mcpcli_New"
    by (simp add: NewChatsManager_def)
  have ring: "data (history ?ch) \<noteq> []"
    by (simp add: history_chat_New history_New_def ring_New_def)
  have "fst ?turn = Inr [(''2'', example_call ''2'' ''nope'')]"
    using ring
    by (simp add: Chat_Chat_def Chat_options_def Chat_request_def WithTools_def
        WithWriteFunc_def WithStream_def McpClient_Tools_def McpClient_ToolCount_def
        NewChatsManager_def mcpcli_New_def History_Store_def doStream_def stream_backend_def
        call_delta_def example_call_def Let_def split: prod.splits)
  then have turn: "?turn = (Inr [(''2'', example_call ''2'' ''nope'')],
                            fst (snd ?turn), snd (snd ?turn))"
    by (metis prod.collapse)
  have t3: "\<exists>p. fst (ChatsManager_Chat example_env example_codec ?b 1 2 ?cm ''user-123''
                       ''hello'' keep_writes []) = Panics p"
    using C3_unknown_tool_panics
      [where env = example_env and tc = "example_call ''2'' ''nope''" and arg = "''{}''"
         and m = mcpcli_New and calls = "[example_call ''2'' ''nope'']"
         and j = example_codec and cm = ?cm and i = "''user-123''" and ch = ?ch
         and key = "''user-123''" and created = True and ?cm0.0 = ?stored and b = ?b
         and ?now1.0 = 1 and ?now2.0 = 2 and message = "''hello''" and w = keep_writes
         and s = "[]" and toolcall = "[(''2'', example_call ''2'' ''nope'')]"
         and ?ch1.0 = "fst (snd ?turn)" and ?s1.0 = "snd (snd ?turn)",
       THEN conjunct2, THEN conjunct2]
      ses cli turn
    by (simp add: example_env_def example_call_def mcpcli_New_def)
  from t1 t2 t3 show ?thesis
    by (intro conjI)
qed

section \<open>The registry: the session of an id\<close>

text \<open>
  Claim C1 (not met by the code). \<open>ChatsManager.Chat\<close> looks the session up under the
  hash of the id but stores a new session under the id itself. When the hash of an id
  is not the id and no session is held under the hash, then after the call there is
  still none under the hash: a second call with the same id finds nothing, creates a
  new session (and restores from storage again) and stores it under the id, where the
  session of the first call was.
\<close>

theorem C1_session_not_reused:
  assumes "GetSHA1 env i \<noteq> i" and "chats cm (GetSHA1 env i) = None"
  shows "chats (fst (snd (ChatsManager_Chat env j b n1 n2 cm i message w s))) (GetSHA1 env i) = None
         \<and> (\<forall>ch key created cm2.
                ChatsManager_session env j
                  (fst (snd (ChatsManager_Chat env j b n1 n2 cm i message w s))) i
                = (Inr (ch, key, created), cm2)
                \<longrightarrow> created \<and> key = i)
         \<and> (\<forall>ch key created cm0.
                ChatsManager_session env j cm i = (Inr (ch, key, created), cm0)
                \<longrightarrow> chats (fst (snd (ChatsManager_Chat env j b n1 n2 cm i message w s))) i \<noteq> None)"
proof -
  let ?cm' = "fst (snd (ChatsManager_Chat env j b n1 n2 cm i message w s))"
  obtain r cm0 where ses: "ChatsManager_session env j cm i = (r, cm0)"
    by (cases "ChatsManager_session env j cm i")
  have miss: "chats ?cm' (GetSHA1 env i) = None"
  proof (cases r)
    case (Inl f)
    with ses have "?cm' = cm0" and "chats cm0 = chats cm"
      by (simp_all add: ChatsManager_Chat_failure ChatsManager_session_failure)
    with assms(2) show ?thesis by simp
  next
    case (Inr x)
    obtain ch key created where x: "x = (ch, key, created)" by (cases x)
    from ses Inr x have s0: "ChatsManager_session env j cm i = (Inr (ch, key, created), cm0)"
      by simp
    from ChatsManager_session_miss [OF assms(2) s0]
    have k: "key = i" and c0: "chats cm0 = (chats cm)(i \<mapsto> ch)" by simp_all
    from ChatsManager_Chat_chats [OF s0, of b n1 n2 message w s]
    obtain ch' where "chats ?cm' = (chats cm0)(key \<mapsto> ch')" by blast
    with k c0 assms show ?thesis by simp
  qed
  have again: "created \<and> key = i"
    if "ChatsManager_session env j ?cm' i = (Inr (ch, key, created), cm2)"
    for ch key created cm2
    using ChatsManager_session_miss [OF miss that] by simp
  have stored: "chats ?cm' i \<noteq> None"
    if s0: "ChatsManager_session env j cm i = (Inr (ch, key, created), cm0)"
    for ch key created cm0
  proof -
    from ChatsManager_session_miss [OF assms(2) s0] have k: "key = i" by simp
    from ChatsManager_Chat_chats [OF s0, of b n1 n2 message w s]
    obtain ch' where "chats ?cm' = (chats cm0)(key \<mapsto> ch')" by blast
    with k show ?thesis by simp
  qed
  from miss again stored show ?thesis by blast
qed

theorem C1_session_not_reused_witness:
  "chats (fst (snd (ChatsManager_Chat example_env example_codec (stream_backend []) 1 2
                      (NewChatsManager []) ''user-123'' ''hello'' keep_writes [])))
     (GetSHA1 example_env ''user-123'') = None
   \<and> (\<exists>ch cm2.
         ChatsManager_session example_env example_codec
           (fst (snd (ChatsManager_Chat example_env example_codec (stream_backend []) 1 2
                        (NewChatsManager []) ''user-123'' ''hello'' keep_writes []))) ''user-123''
         = (Inr (ch, ''user-123'', True), cm2))
   \<and> chats (fst (snd (ChatsManager_Chat example_env example_codec (stream_backend []) 1 2
                      (NewChatsManager []) ''user-123'' ''hello'' keep_writes [])))
       ''user-123'' \<noteq> None"
proof -
  let ?cm = "NewChatsManager []"
  let ?cm' = "fst (snd (ChatsManager_Chat example_env example_codec (stream_backend []) 1 2
                      ?cm ''user-123'' ''hello'' keep_writes []))"
  have h1: "GetSHA1 example_env ''user-123'' \<noteq> ''user-123''"
    by (simp add: example_env_def)
  have h2: "chats ?cm (GetSHA1 example_env ''user-123'') = None"
    by (simp add: NewChatsManager_def)
  note inst = C1_session_not_reused [OF h1 h2, of example_codec "stream_backend []" 1 2
      "''hello''" keep_writes "[]"]
  have first: "\<exists>ch cm0. ChatsManager_session example_env example_codec ?cm ''user-123''
                 = (Inr (ch, ''user-123'', True), cm0)"
    using h2
    by (simp add: ChatsManager_session_def restore_session_def NewChatsManager_def Let_def
        NewMemoryStorage_def MemoryStorage_Load_def)
  have "cnf ?cm' = cnf ?cm"
    by (rule ChatsManager_Chat_cnf)
  then have second: "\<exists>ch cm2. ChatsManager_session example_env example_codec ?cm' ''user-123''
                 = (Inr (ch, ''user-123'', True), cm2)"
    using inst
    by (simp add: ChatsManager_session_def restore_session_def NewChatsManager_def Let_def
        NewMemoryStorage_def MemoryStorage_Load_def)
  from inst first second show ?thesis by blast
qed

end
